theory Spec2Isabelle
  imports Main
begin

section \<open>Python values, exceptions and the canonical data model\<close>

text \<open>
  The adapters of \<^verbatim>\<open>simplemind/providers\<close> are Python classes that build a request from
  canonical values, hand it to a vendor SDK and read the reply with attribute access,
  subscripts and \<^verbatim>\<open>dict.get\<close>. The replies are dynamically typed, so they are modelled
  by one datatype of Python values; every operation on them that Python can refuse
  returns the exception as a value.
\<close>

datatype pyval =
    PNone
  | PBool bool
  | PInt int
  | PStr string
  | PList "pyval list"
  | PDict "(string \<times> pyval) list"
  | PObj "(string \<times> pyval) list"

text \<open>
  An exception is its class name, its message and its \<^verbatim>\<open>__cause__\<close>
  (set by \<^verbatim>\<open>raise ... from e\<close>).
\<close>

datatype exn = Exn (exn_class: string) (exn_msg: string) (exn_cause: "exn option")

type_synonym kwargs = "(string \<times> pyval) list"

text \<open>Truthiness, as used by \<^verbatim>\<open>not x\<close> and \<^verbatim>\<open>x or y\<close>.\<close>

fun truthy :: "pyval \<Rightarrow> bool" where
  "truthy PNone = False"
| "truthy (PBool b) = b"
| "truthy (PInt i) = (i \<noteq> 0)"
| "truthy (PStr s) = (s \<noteq> [])"
| "truthy (PList xs) = (xs \<noteq> [])"
| "truthy (PDict kvs) = (kvs \<noteq> [])"
| "truthy (PObj kvs) = True"

definition py_or :: "pyval \<Rightarrow> pyval \<Rightarrow> pyval" where
  "py_or a b = (if truthy a then a else b)"

text \<open>
  Credentials, host urls and a conversation's model are \<^verbatim>\<open>str | None\<close>;
  \<open>None\<close> and the empty string are both falsy.
\<close>

fun truthy_opt :: "string option \<Rightarrow> bool" where
  "truthy_opt None = False"
| "truthy_opt (Some s) = (s \<noteq> [])"

definition opt_or :: "string option \<Rightarrow> string option \<Rightarrow> string option" where
  "opt_or a b = (if truthy_opt a then a else b)"

definition opt_or_str :: "string option \<Rightarrow> string \<Rightarrow> string" where
  "opt_or_str a d = (case a of None \<Rightarrow> d | Some s \<Rightarrow> if s \<noteq> [] then s else d)"

text \<open>An f-string field \<^verbatim>\<open>{x}\<close> of a \<^verbatim>\<open>str | None\<close>.\<close>

fun fmt_opt :: "string option \<Rightarrow> string" where
  "fmt_opt None = ''None''"
| "fmt_opt (Some s) = s"

text \<open>\<^verbatim>\<open>obj.name\<close>: only objects carry attributes here.\<close>

fun py_getattr :: "pyval \<Rightarrow> string \<Rightarrow> exn + pyval" where
  "py_getattr (PObj kvs) a =
     (case map_of kvs a of
        Some v \<Rightarrow> Inr v
      | None \<Rightarrow> Inl (Exn ''AttributeError'' a None))"
| "py_getattr v a = Inl (Exn ''AttributeError'' a None)"

text \<open>\<^verbatim>\<open>d[key]\<close> with a string key.\<close>

fun py_getitem :: "pyval \<Rightarrow> string \<Rightarrow> exn + pyval" where
  "py_getitem (PDict kvs) k =
     (case map_of kvs k of
        Some v \<Rightarrow> Inr v
      | None \<Rightarrow> Inl (Exn ''KeyError'' k None))"
| "py_getitem v k = Inl (Exn ''TypeError'' ''not subscriptable by str'' None)"

text \<open>\<^verbatim>\<open>xs[0]\<close>.\<close>

fun py_first :: "pyval \<Rightarrow> exn + pyval" where
  "py_first (PList xs) =
     (case xs of
        [] \<Rightarrow> Inl (Exn ''IndexError'' ''list index out of range'' None)
      | x # _ \<Rightarrow> Inr x)"
| "py_first (PStr s) =
     (case s of
        [] \<Rightarrow> Inl (Exn ''IndexError'' ''string index out of range'' None)
      | c # _ \<Rightarrow> Inr (PStr [c]))"
| "py_first (PDict kvs) = Inl (Exn ''KeyError'' ''0'' None)"
| "py_first v = Inl (Exn ''TypeError'' ''not subscriptable'' None)"

text \<open>\<^verbatim>\<open>d.get(key, default)\<close>: a method of dictionaries only.\<close>

fun py_get :: "pyval \<Rightarrow> string \<Rightarrow> pyval \<Rightarrow> exn + pyval" where
  "py_get (PDict kvs) k d =
     (case map_of kvs k of
        Some v \<Rightarrow> Inr v
      | None \<Rightarrow> Inr d)"
| "py_get v k d = Inl (Exn ''AttributeError'' ''get'' None)"

text \<open>Sequencing of computations that may raise.\<close>

definition bind_exn :: "exn + 'a \<Rightarrow> ('a \<Rightarrow> exn + 'b) \<Rightarrow> exn + 'b" where
  "bind_exn r f = (case r of Inl e \<Rightarrow> Inl e | Inr v \<Rightarrow> f v)"

text \<open>
  \<^verbatim>\<open>{**a, **b}\<close>: the keys of \<open>a\<close> in order, with the values of \<open>b\<close> where it has the
  key, then the new keys of \<open>b\<close>.
\<close>

definition dict_union :: "kwargs \<Rightarrow> kwargs \<Rightarrow> kwargs" where
  "dict_union a b =
     map (\<lambda>(k, v). (k, case map_of b k of Some v' \<Rightarrow> v' | None \<Rightarrow> v)) a
     @ filter (\<lambda>(k, v). map_of a k = None) b"

text \<open>\<^verbatim>\<open>kwargs.pop(key, default)\<close>: the dictionary without the key.\<close>

definition dict_pop :: "kwargs \<Rightarrow> string \<Rightarrow> kwargs" where
  "dict_pop kw k = filter (\<lambda>(k', v). k' \<noteq> k) kw"

text \<open>
  The canonical Message (\<^verbatim>\<open>simplemind.models.Message\<close>, constructed by keyword in every
  adapter) and Conversation (read through \<^verbatim>\<open>.messages\<close> and \<^verbatim>\<open>.llm_model\<close>).
  The text field holds whatever value the adapter passes.
\<close>

record Message =
  role :: string
  msg_text :: pyval
  raw :: pyval
  llm_model :: string
  llm_provider :: string

record Conversation =
  messages :: "Message list"
  conv_llm_model :: "string option"

section \<open>The external collaborators\<close>

text \<open>
  A transport handle is an object built by a vendor SDK constructor. Its first component
  is its identity: the number of handles built before it.
\<close>

datatype handle =
    GenerativeModel nat string
  | GroqClient nat string
  | OllamaClient nat nat string
  | OpenAIClient nat string string
  | Instructor nat string handle

text \<open>
  A request is a method call on a handle: the method's dotted path, its positional and
  its keyword arguments.
\<close>

datatype request = Request (req_handle: handle) (req_method: string)
  (req_args: "pyval list") (req_kwargs: kwargs)

text \<open>
  The world outside an adapter: every handle built and every request sent, oldest first.
\<close>

record world =
  built :: "handle list"
  sent :: "request list"

text \<open>
  The environment is what the adapters do not own: the settings service, the vendor
  transports (any deterministic function of the requests sent so far and the present
  one, returning a reply or raising), the chunk sequence of a streamed reply,
  pydantic's \<^verbatim>\<open>model_validate\<close>, and whether \<^verbatim>\<open>import ollama\<close> succeeds.
\<close>

record env =
  get_api_key :: "string \<Rightarrow> string option"
  OLLAMA_HOST_URL :: "string option"
  transport :: "request list \<Rightarrow> request \<Rightarrow> exn + pyval"
  stream_transport :: "request list \<Rightarrow> request \<Rightarrow> exn + pyval list"
  model_validate :: "pyval \<Rightarrow> pyval \<Rightarrow> exn + pyval"
  import_ollama :: "exn option"

definition call :: "env \<Rightarrow> request \<Rightarrow> world \<Rightarrow> (exn + pyval) \<times> world" where
  "call E rq w = (transport E (sent w) rq, w\<lparr>sent := sent w @ [rq]\<rparr>)"

definition call_stream :: "env \<Rightarrow> request \<Rightarrow> world \<Rightarrow> (exn + pyval list) \<times> world" where
  "call_stream E rq w = (stream_transport E (sent w) rq, w\<lparr>sent := sent w @ [rq]\<rparr>)"

text \<open>
  A call \<^verbatim>\<open>f(k1=v1, ..., **extra)\<close>: Python raises TypeError, before \<open>f\<close> runs, when
  \<open>extra\<close> repeats one of the explicit keywords.
\<close>

definition clash :: "kwargs \<Rightarrow> kwargs \<Rightarrow> bool" where
  "clash named extra = list_ex (\<lambda>k. k \<in> set (map fst extra)) (map fst named)"

definition multiple_values :: exn where
  "multiple_values = Exn ''TypeError'' ''got multiple values for keyword argument'' None"

text \<open>
  A call \<^verbatim>\<open>f(a, k=v, ...)\<close> whose keywords name a parameter that is already bound by
  position (\<^verbatim>\<open>self\<close> included): Python raises TypeError before the body runs.
\<close>

definition bound_twice :: "string list \<Rightarrow> kwargs \<Rightarrow> bool" where
  "bound_twice params kw = list_ex (\<lambda>k. k \<in> set params) (map fst kw)"

definition new_handle :: "handle \<Rightarrow> world \<Rightarrow> world" where
  "new_handle h w = w\<lparr>built := built w @ [h]\<rparr>"

text \<open>The single-turn payload \<^verbatim>\<open>[{"role": "user", "content": prompt}]\<close>.\<close>

definition user_messages :: "string \<Rightarrow> pyval" where
  "user_messages prompt = PList [PDict [(''role'', PStr ''user''), (''content'', PStr prompt)]]"

text \<open>
  \<^verbatim>\<open>[{"role": msg.role, "content": msg.text} for msg in conversation.messages]\<close>
\<close>

definition chat_messages :: "Conversation \<Rightarrow> pyval" where
  "chat_messages conversation =
     PList (map (\<lambda>msg. PDict [(''role'', PStr (role msg)), (''content'', msg_text msg)])
              (messages conversation))"

text \<open>
  \<^verbatim>\<open>except Exception\<close> catches every exception but the built-in classes that derive
  from BaseException directly.
\<close>

definition is_Exception :: "exn \<Rightarrow> bool" where
  "is_Exception e =
     (exn_class e \<notin> set [''BaseException'', ''KeyboardInterrupt'', ''SystemExit'', ''GeneratorExit''])"

text \<open>\<^verbatim>\<open>raise RuntimeError(f"<prefix>{e}") from e\<close> in a handler of \<^verbatim>\<open>except Exception as e\<close>.\<close>

definition reraise :: "string \<Rightarrow> exn \<Rightarrow> exn" where
  "reraise prefix e =
     (if is_Exception e then Exn ''RuntimeError'' (prefix @ exn_msg e) (Some e) else e)"

section \<open>The Groq adapter (\<^verbatim>\<open>providers/groq.py\<close>)\<close>

definition GROQ_PROVIDER_NAME :: string where
  "GROQ_PROVIDER_NAME = ''groq''"

definition GROQ_DEFAULT_MODEL :: string where
  "GROQ_DEFAULT_MODEL = ''llama3-8b-8192''"

record Groq =
  groq_api_key :: "string option"

definition Groq_init :: "env \<Rightarrow> string option \<Rightarrow> Groq" where
  "Groq_init E api_key = \<lparr>groq_api_key = opt_or api_key (get_api_key E GROQ_PROVIDER_NAME)\<rparr>"

text \<open>\<^verbatim>\<open>client\<close> and \<^verbatim>\<open>structured_client\<close> are plain properties: the body runs at every access.\<close>

definition Groq_client :: "Groq \<Rightarrow> world \<Rightarrow> (exn + handle) \<times> world" where
  "Groq_client self w =
     (case groq_api_key self of
        None \<Rightarrow> (Inl (Exn ''ValueError'' ''Groq API key is required'' None), w)
      | Some k \<Rightarrow>
          if k = [] then (Inl (Exn ''ValueError'' ''Groq API key is required'' None), w)
          else (Inr (GroqClient (length (built w)) k),
                new_handle (GroqClient (length (built w)) k) w))"

definition Groq_structured_client :: "Groq \<Rightarrow> world \<Rightarrow> (exn + handle) \<times> world" where
  "Groq_structured_client self w =
     (case Groq_client self w of
        (Inl e, w1) \<Rightarrow> (Inl e, w1)
      | (Inr c, w1) \<Rightarrow>
          (Inr (Instructor (length (built w1)) ''from_groq'' c),
           new_handle (Instructor (length (built w1)) ''from_groq'' c) w1))"

text \<open>\<^verbatim>\<open>response.choices[0].message\<close> and then \<^verbatim>\<open>.content\<close>.\<close>

definition first_choice_content :: "pyval \<Rightarrow> exn + pyval" where
  "first_choice_content response =
     bind_exn (py_getattr response ''choices'') (\<lambda>choices.
     bind_exn (py_first choices) (\<lambda>choice.
     bind_exn (py_getattr choice ''message'') (\<lambda>assistant_message.
     py_getattr assistant_message ''content'')))"

definition Groq_send_conversation ::
  "env \<Rightarrow> Groq \<Rightarrow> world \<Rightarrow> Conversation \<Rightarrow> (exn + Message) \<times> world" where
  "Groq_send_conversation E self w conversation =
     (case Groq_client self w of
        (Inl e, w1) \<Rightarrow> (Inl e, w1)
      | (Inr c, w1) \<Rightarrow>
          (case call E (Request c ''chat.completions.create'' []
                  [(''model'', PStr (opt_or_str (conv_llm_model conversation) GROQ_DEFAULT_MODEL)),
                   (''messages'', chat_messages conversation)]) w1 of
             (Inl e, w2) \<Rightarrow> (Inl e, w2)
           | (Inr response, w2) \<Rightarrow>
               (bind_exn (first_choice_content response) (\<lambda>content.
                  Inr \<lparr>role = ''assistant'',
                       msg_text = py_or content (PStr []),
                       raw = response,
                       llm_model = opt_or_str (conv_llm_model conversation) GROQ_DEFAULT_MODEL,
                       llm_provider = GROQ_PROVIDER_NAME\<rparr>), w2)))"

text \<open>\<^verbatim>\<open>structured_response(self, prompt, response_model)\<close>: no model is passed.\<close>

definition Groq_structured_response ::
  "env \<Rightarrow> Groq \<Rightarrow> world \<Rightarrow> string \<Rightarrow> pyval \<Rightarrow> (exn + pyval) \<times> world" where
  "Groq_structured_response E self w prompt response_model =
     (case Groq_structured_client self w of
        (Inl e, w1) \<Rightarrow> (Inl e, w1)
      | (Inr c, w1) \<Rightarrow>
          call E (Request c ''chat.completions.create'' []
                  [(''messages'', user_messages prompt),
                   (''response_model'', response_model)]) w1)"

text \<open>
  \<^verbatim>\<open>generate_text(self, prompt, *, llm_model)\<close>, called with the keyword arguments \<open>kw\<close>:
  \<^verbatim>\<open>llm_model\<close> is keyword-only and has no default, and no other keyword is accepted.
\<close>

definition Groq_generate_text ::
  "env \<Rightarrow> Groq \<Rightarrow> world \<Rightarrow> string \<Rightarrow> kwargs \<Rightarrow> (exn + pyval) \<times> world" where
  "Groq_generate_text E self w prompt kw =
     (if dict_pop kw ''llm_model'' \<noteq> [] then
        (Inl (Exn ''TypeError'' ''unexpected keyword argument'' None), w)
      else
        (case map_of kw ''llm_model'' of
           None \<Rightarrow>
             (Inl (Exn ''TypeError'' ''missing 1 required keyword-only argument: llm_model'' None), w)
         | Some model \<Rightarrow>
             (case Groq_structured_client self w of
                (Inl e, w1) \<Rightarrow> (Inl e, w1)
              | (Inr c, w1) \<Rightarrow>
                  (case call E (Request c ''chat.completions.create'' []
                          [(''messages'', user_messages prompt), (''model'', model)]) w1 of
                     (Inl e, w2) \<Rightarrow> (Inl e, w2)
                   | (Inr response, w2) \<Rightarrow> (first_choice_content response, w2)))))"

section \<open>The Gemini adapter (\<^verbatim>\<open>providers/gemini.py\<close>)\<close>

definition GEMINI_PROVIDER_NAME :: string where
  "GEMINI_PROVIDER_NAME = ''gemini''"

definition GEMINI_DEFAULT_MODEL :: string where
  "GEMINI_DEFAULT_MODEL = ''models/gemini-1.5-flash-latest''"

text \<open>
  The instance: its two attributes and the two slots that \<^verbatim>\<open>cached_property\<close> fills in
  the instance dictionary.
\<close>

record Gemini =
  gemini_api_key :: "string option"
  model_name :: string
  gemini_client_slot :: "handle option"
  gemini_structured_slot :: "handle option"

definition Gemini_init :: "env \<Rightarrow> string option \<Rightarrow> Gemini" where
  "Gemini_init E api_key =
     \<lparr>gemini_api_key = opt_or api_key (get_api_key E GEMINI_PROVIDER_NAME),
      model_name = GEMINI_DEFAULT_MODEL,
      gemini_client_slot = None,
      gemini_structured_slot = None\<rparr>"

text \<open>
  \<^verbatim>\<open>cached_property\<close> calls the body with the instance alone, so \<^verbatim>\<open>model_name\<close> is always
  its default; the result is stored only when the body returns.
\<close>

definition Gemini_client :: "Gemini \<Rightarrow> world \<Rightarrow> (exn + handle) \<times> Gemini \<times> world" where
  "Gemini_client self w =
     (case gemini_client_slot self of
        Some h \<Rightarrow> (Inr h, self, w)
      | None \<Rightarrow>
          if \<not> truthy_opt (gemini_api_key self) then
            (Inl (Exn ''ValueError'' ''Gemini API key is required'' None), self, w)
          else
            (Inr (GenerativeModel (length (built w)) GEMINI_DEFAULT_MODEL),
             self\<lparr>model_name := GEMINI_DEFAULT_MODEL,
                  gemini_client_slot := Some (GenerativeModel (length (built w)) GEMINI_DEFAULT_MODEL)\<rparr>,
             new_handle (GenerativeModel (length (built w)) GEMINI_DEFAULT_MODEL) w))"

definition Gemini_structured_client :: "Gemini \<Rightarrow> world \<Rightarrow> (exn + handle) \<times> Gemini \<times> world" where
  "Gemini_structured_client self w =
     (case gemini_structured_slot self of
        Some h \<Rightarrow> (Inr h, self, w)
      | None \<Rightarrow>
          (case Gemini_client self w of
             (Inl e, self1, w1) \<Rightarrow> (Inl e, self1, w1)
           | (Inr c, self1, w1) \<Rightarrow>
               (Inr (Instructor (length (built w1)) ''from_gemini'' c),
                self1\<lparr>gemini_structured_slot := Some (Instructor (length (built w1)) ''from_gemini'' c)\<rparr>,
                new_handle (Instructor (length (built w1)) ''from_gemini'' c) w1)))"

text \<open>
  The loop \<^verbatim>\<open>for msg in conversation.messages[:-1]: chat.send_message(msg.text)\<close>,
  outside any handler. The chat session of \<^verbatim>\<open>client.start_chat()\<close> sends through the
  client it was started from.
\<close>

fun replay :: "env \<Rightarrow> handle \<Rightarrow> Message list \<Rightarrow> world \<Rightarrow> (exn + unit) \<times> world" where
  "replay E chat [] w = (Inr (), w)"
| "replay E chat (msg # msgs) w =
     (case call E (Request chat ''start_chat.send_message'' [msg_text msg] []) w of
        (Inl e, w1) \<Rightarrow> (Inl e, w1)
      | (Inr response, w1) \<Rightarrow> replay E chat msgs w1)"

definition Gemini_send_conversation ::
  "env \<Rightarrow> Gemini \<Rightarrow> world \<Rightarrow> Conversation \<Rightarrow> (exn + Message) \<times> Gemini \<times> world" where
  "Gemini_send_conversation E self w conversation =
     (case Gemini_client self w of
        (Inl e, self1, w1) \<Rightarrow> (Inl e, self1, w1)
      | (Inr chat, self1, w1) \<Rightarrow>
          (case replay E chat (butlast (messages conversation)) w1 of
             (Inl e, w2) \<Rightarrow> (Inl e, self1, w2)
           | (Inr u, w2) \<Rightarrow>
               (case messages conversation of
                  [] \<Rightarrow>
                    (Inl (reraise ''Failed to send conversation to Gemini API: ''
                            (Exn ''IndexError'' ''list index out of range'' None)), self1, w2)
                | m # ms \<Rightarrow>
                    (case call E (Request chat ''start_chat.send_message''
                            [msg_text (last (messages conversation))] []) w2 of
                       (Inl e, w3) \<Rightarrow>
                         (Inl (reraise ''Failed to send conversation to Gemini API: '' e), self1, w3)
                     | (Inr response, w3) \<Rightarrow>
                         (bind_exn (py_getattr response ''text'') (\<lambda>t.
                            Inr \<lparr>role = ''assistant'',
                                 msg_text = t,
                                 raw = response,
                                 llm_model = model_name self1,
                                 llm_provider = GEMINI_PROVIDER_NAME\<rparr>), self1, w3)))))"

text \<open>
  \<^verbatim>\<open>structured_response(self, prompt, response_model, **kwargs)\<close>: \<^verbatim>\<open>llm_model\<close> is popped
  from the keyword arguments into a local that is not read again; the property access,
  the call and its keyword check all sit inside the handler.
\<close>

definition Gemini_structured_response ::
  "env \<Rightarrow> Gemini \<Rightarrow> world \<Rightarrow> string \<Rightarrow> pyval \<Rightarrow> kwargs \<Rightarrow> (exn + pyval) \<times> Gemini \<times> world" where
  "Gemini_structured_response E self w prompt response_model kw =
     (if bound_twice [''self'', ''prompt'', ''response_model''] kw then
        (Inl multiple_values, self, w)
      else
     (case Gemini_structured_client self w of
        (Inl e, self1, w1) \<Rightarrow>
          (Inl (reraise ''Failed to send structured response to Gemini API: '' e), self1, w1)
      | (Inr c, self1, w1) \<Rightarrow>
          if clash [(''messages'', user_messages prompt), (''response_model'', response_model)]
               (dict_pop kw ''llm_model'') then
            (Inl (reraise ''Failed to send structured response to Gemini API: '' multiple_values),
             self1, w1)
          else
            (case call E (Request c ''chat.completions.create'' []
                    ([(''messages'', user_messages prompt), (''response_model'', response_model)]
                     @ dict_pop kw ''llm_model'')) w1 of
               (Inl e, w2) \<Rightarrow>
                 (Inl (reraise ''Failed to send structured response to Gemini API: '' e), self1, w2)
             | (Inr response, w2) \<Rightarrow> (Inr response, self1, w2))))"

definition Gemini_generate_text ::
  "env \<Rightarrow> Gemini \<Rightarrow> world \<Rightarrow> string \<Rightarrow> kwargs \<Rightarrow> (exn + pyval) \<times> Gemini \<times> world" where
  "Gemini_generate_text E self w prompt kw =
     (if bound_twice [''self'', ''prompt''] kw then (Inl multiple_values, self, w)
      else
     (case Gemini_client self w of
        (Inl e, self1, w1) \<Rightarrow>
          (Inl (reraise ''Failed to generate text with Gemini API: '' e), self1, w1)
      | (Inr c, self1, w1) \<Rightarrow>
          (case call E (Request c ''generate_content'' [PStr prompt]
                  (dict_pop kw ''llm_model'')) w1 of
             (Inl e, w2) \<Rightarrow>
               (Inl (reraise ''Failed to generate text with Gemini API: '' e), self1, w2)
           | (Inr response, w2) \<Rightarrow> (py_getattr response ''text'', self1, w2))))"

section \<open>The Ollama adapter (\<^verbatim>\<open>providers/ollama.py\<close>)\<close>

definition OLLAMA_PROVIDER_NAME :: string where
  "OLLAMA_PROVIDER_NAME = ''ollama''"

definition OLLAMA_DEFAULT_MODEL :: string where
  "OLLAMA_DEFAULT_MODEL = ''llama3.2''"

definition DEFAULT_TIMEOUT :: nat where
  "DEFAULT_TIMEOUT = 60"

definition DEFAULT_KWARGS :: kwargs where
  "DEFAULT_KWARGS = []"

record Ollama =
  host_url :: "string option"
  ollama_client_slot :: "handle option"
  ollama_structured_slot :: "handle option"

definition Ollama_init :: "env \<Rightarrow> string option \<Rightarrow> Ollama" where
  "Ollama_init E url =
     \<lparr>host_url = opt_or url (OLLAMA_HOST_URL E),
      ollama_client_slot = None,
      ollama_structured_slot = None\<rparr>"

text \<open>
  The cached property \<^verbatim>\<open>client\<close>: the host check, then \<^verbatim>\<open>import ollama\<close>, whose
  ImportError is raised again with the installation hint, then the constructor.
\<close>

definition Ollama_client :: "env \<Rightarrow> Ollama \<Rightarrow> world \<Rightarrow> (exn + handle) \<times> Ollama \<times> world" where
  "Ollama_client E self w =
     (case ollama_client_slot self of
        Some h \<Rightarrow> (Inr h, self, w)
      | None \<Rightarrow>
          (case host_url self of
             None \<Rightarrow> (Inl (Exn ''ValueError'' ''No ollama host url provided'' None), self, w)
           | Some url \<Rightarrow>
               if url = [] then
                 (Inl (Exn ''ValueError'' ''No ollama host url provided'' None), self, w)
               else
                 (case import_ollama E of
                    Some exc \<Rightarrow>
                      (Inl (Exn ''ImportError''
                              ''Please install the `ollama` package: `pip install ollama`''
                              (Some exc)), self, w)
                  | None \<Rightarrow>
                      (Inr (OllamaClient (length (built w)) DEFAULT_TIMEOUT url),
                       self\<lparr>ollama_client_slot :=
                              Some (OllamaClient (length (built w)) DEFAULT_TIMEOUT url)\<rparr>,
                       new_handle (OllamaClient (length (built w)) DEFAULT_TIMEOUT url) w))))"

text \<open>
  The cached property \<^verbatim>\<open>structured_client\<close> builds an OpenAI client on
  \<^verbatim>\<open>f"{self.host_url}/v1"\<close> and wraps it; it does not read \<^verbatim>\<open>client\<close> and has no host
  check.
\<close>

definition Ollama_structured_client :: "Ollama \<Rightarrow> world \<Rightarrow> (exn + handle) \<times> Ollama \<times> world" where
  "Ollama_structured_client self w =
     (case ollama_structured_slot self of
        Some h \<Rightarrow> (Inr h, self, w)
      | None \<Rightarrow>
          (Inr (Instructor (Suc (length (built w))) ''from_openai JSON''
                  (OpenAIClient (length (built w)) (fmt_opt (host_url self) @ ''/v1'') ''ollama'')),
           self\<lparr>ollama_structured_slot :=
                  Some (Instructor (Suc (length (built w))) ''from_openai JSON''
                    (OpenAIClient (length (built w)) (fmt_opt (host_url self) @ ''/v1'') ''ollama''))\<rparr>,
           new_handle
             (Instructor (Suc (length (built w))) ''from_openai JSON''
                (OpenAIClient (length (built w)) (fmt_opt (host_url self) @ ''/v1'') ''ollama''))
             (new_handle
                (OpenAIClient (length (built w)) (fmt_opt (host_url self) @ ''/v1'') ''ollama'') w)))"

text \<open>
  \<^verbatim>\<open>send_conversation(self, conversation, **kwargs)\<close>; the reply is read with
  \<^verbatim>\<open>response.get("message")\<close> and \<^verbatim>\<open>assistant_message.get("content")\<close>.
\<close>

definition Ollama_send_conversation ::
  "env \<Rightarrow> Ollama \<Rightarrow> world \<Rightarrow> Conversation \<Rightarrow> kwargs \<Rightarrow> (exn + Message) \<times> Ollama \<times> world" where
  "Ollama_send_conversation E self w conversation kw =
     (case Ollama_client E self w of
        (Inl e, self1, w1) \<Rightarrow> (Inl e, self1, w1)
      | (Inr c, self1, w1) \<Rightarrow>
          if clash [(''model'', PStr (opt_or_str (conv_llm_model conversation) OLLAMA_DEFAULT_MODEL)),
                    (''messages'', chat_messages conversation)]
               (dict_union DEFAULT_KWARGS kw) then
            (Inl multiple_values, self1, w1)
          else
            (case call E (Request c ''chat'' []
                    ([(''model'', PStr (opt_or_str (conv_llm_model conversation) OLLAMA_DEFAULT_MODEL)),
                      (''messages'', chat_messages conversation)]
                     @ dict_union DEFAULT_KWARGS kw)) w1 of
               (Inl e, w2) \<Rightarrow> (Inl e, self1, w2)
             | (Inr response, w2) \<Rightarrow>
                 (bind_exn (py_get response ''message'' PNone) (\<lambda>assistant_message.
                  bind_exn (py_get assistant_message ''content'' PNone) (\<lambda>content.
                    Inr \<lparr>role = ''assistant'',
                         msg_text = content,
                         raw = response,
                         llm_model = opt_or_str (conv_llm_model conversation) OLLAMA_DEFAULT_MODEL,
                         llm_provider = OLLAMA_PROVIDER_NAME\<rparr>)), self1, w2)))"

text \<open>
  \<^verbatim>\<open>structured_response\<close>, \<^verbatim>\<open>generate_text\<close> and \<^verbatim>\<open>generate_stream_text\<close> take the
  keyword arguments \<open>kw\<close> of the call. The keyword-only parameter \<^verbatim>\<open>llm_model\<close>
  (default \<^verbatim>\<open>None\<close> in the first two) is bound from them; the others go to \<^verbatim>\<open>**kwargs\<close>.
\<close>

definition llm_model_arg :: "kwargs \<Rightarrow> pyval" where
  "llm_model_arg kw = (case map_of kw ''llm_model'' of None \<Rightarrow> PNone | Some v \<Rightarrow> v)"

definition Ollama_structured_response ::
  "env \<Rightarrow> Ollama \<Rightarrow> world \<Rightarrow> string \<Rightarrow> pyval \<Rightarrow> kwargs \<Rightarrow> (exn + pyval) \<times> Ollama \<times> world" where
  "Ollama_structured_response E self w prompt response_model kw =
     (if bound_twice [''self'', ''prompt'', ''response_model''] kw then
        (Inl multiple_values, self, w)
      else
     (case Ollama_structured_client self w of
        (Inl e, self1, w1) \<Rightarrow> (Inl e, self1, w1)
      | (Inr c, self1, w1) \<Rightarrow>
          if clash [(''messages'', user_messages prompt),
                    (''model'', py_or (llm_model_arg kw) (PStr OLLAMA_DEFAULT_MODEL)),
                    (''response_model'', response_model)]
               (dict_union DEFAULT_KWARGS (dict_pop kw ''llm_model'')) then
            (Inl multiple_values, self1, w1)
          else
            (case call E (Request c ''chat.completions.create'' []
                    ([(''messages'', user_messages prompt),
                      (''model'', py_or (llm_model_arg kw) (PStr OLLAMA_DEFAULT_MODEL)),
                      (''response_model'', response_model)]
                     @ dict_union DEFAULT_KWARGS (dict_pop kw ''llm_model''))) w1 of
               (Inl e, w2) \<Rightarrow> (Inl e, self1, w2)
             | (Inr response, w2) \<Rightarrow>
                 (model_validate E response_model response, self1, w2))))"

text \<open>
  \<^verbatim>\<open>generate_text\<close> returns \<^verbatim>\<open>response.get("message", {}).get("content", "")\<close>.
\<close>

definition Ollama_generate_text ::
  "env \<Rightarrow> Ollama \<Rightarrow> world \<Rightarrow> string \<Rightarrow> kwargs \<Rightarrow> (exn + pyval) \<times> Ollama \<times> world" where
  "Ollama_generate_text E self w prompt kw =
     (if bound_twice [''self'', ''prompt''] kw then (Inl multiple_values, self, w)
      else
     (case Ollama_client E self w of
        (Inl e, self1, w1) \<Rightarrow> (Inl e, self1, w1)
      | (Inr c, self1, w1) \<Rightarrow>
          if clash [(''messages'', user_messages prompt),
                    (''model'', py_or (llm_model_arg kw) (PStr OLLAMA_DEFAULT_MODEL))]
               (dict_union DEFAULT_KWARGS (dict_pop kw ''llm_model'')) then
            (Inl multiple_values, self1, w1)
          else
            (case call E (Request c ''chat'' []
                    ([(''messages'', user_messages prompt),
                      (''model'', py_or (llm_model_arg kw) (PStr OLLAMA_DEFAULT_MODEL))]
                     @ dict_union DEFAULT_KWARGS (dict_pop kw ''llm_model''))) w1 of
               (Inl e, w2) \<Rightarrow> (Inl e, self1, w2)
             | (Inr response, w2) \<Rightarrow>
                 (bind_exn (py_get response ''message'' (PDict [])) (\<lambda>message.
                    py_get message ''content'' (PStr [])), self1, w2))))"

subsection \<open>The generator \<^verbatim>\<open>generate_stream_text\<close>\<close>

text \<open>
  Calling a generator function binds the arguments and runs nothing else. The generator
  is then driven by \<^verbatim>\<open>next\<close>: the first call runs the body up to the first
  \<^verbatim>\<open>yield\<close>, each later call resumes the loop for one transport chunk.
\<close>

datatype generator =
    Created string pyval kwargs
  | Suspended "pyval list"
  | Finished

datatype step = Yield pyval | Raise exn | StopIteration

definition Ollama_generate_stream_text :: "string \<Rightarrow> kwargs \<Rightarrow> exn + generator" where
  "Ollama_generate_stream_text prompt kw =
     (if bound_twice [''self'', ''prompt''] kw then Inl multiple_values
      else
        (case map_of kw ''llm_model'' of
           None \<Rightarrow>
             Inl (Exn ''TypeError'' ''missing 1 required keyword-only argument: llm_model'' None)
         | Some model \<Rightarrow> Inr (Created prompt model (dict_pop kw ''llm_model''))))"

text \<open>\<^verbatim>\<open>chunk["message"]["content"]\<close>\<close>

definition chunk_content :: "pyval \<Rightarrow> exn + pyval" where
  "chunk_content chunk = bind_exn (py_getitem chunk ''message'') (\<lambda>m. py_getitem m ''content'')"

text \<open>The loop \<^verbatim>\<open>for chunk in response: yield chunk["message"]["content"]\<close>, up to its next yield.\<close>

fun resume :: "pyval list \<Rightarrow> step \<times> generator" where
  "resume [] = (StopIteration, Finished)"
| "resume (chunk # chunks) =
     (case chunk_content chunk of
        Inl e \<Rightarrow> (Raise e, Finished)
      | Inr v \<Rightarrow> (Yield v, Suspended chunks))"

fun gen_next :: "env \<Rightarrow> Ollama \<Rightarrow> world \<Rightarrow> generator \<Rightarrow> (step \<times> generator) \<times> Ollama \<times> world" where
  "gen_next E self w (Created prompt model kwargs) =
     (case Ollama_client E self w of
        (Inl e, self1, w1) \<Rightarrow> ((Raise e, Finished), self1, w1)
      | (Inr c, self1, w1) \<Rightarrow>
          if clash [(''messages'', user_messages prompt),
                    (''model'', py_or model (PStr OLLAMA_DEFAULT_MODEL)),
                    (''stream'', PBool True)]
               (dict_union DEFAULT_KWARGS kwargs) then
            ((Raise multiple_values, Finished), self1, w1)
          else
            (case call_stream E (Request c ''chat'' []
                    ([(''messages'', user_messages prompt),
                      (''model'', py_or model (PStr OLLAMA_DEFAULT_MODEL)),
                      (''stream'', PBool True)]
                     @ dict_union DEFAULT_KWARGS kwargs)) w1 of
               (Inl e, w2) \<Rightarrow> ((Raise e, Finished), self1, w2)
             | (Inr response, w2) \<Rightarrow> (resume response, self1, w2)))"
| "gen_next E self w (Suspended chunks) = (resume chunks, self, w)"
| "gen_next E self w Finished = ((StopIteration, Finished), self, w)"

text \<open>The outcomes of \<open>n\<close> successive calls of \<^verbatim>\<open>next\<close>.\<close>

fun nexts :: "nat \<Rightarrow> env \<Rightarrow> Ollama \<Rightarrow> world \<Rightarrow> generator \<Rightarrow> step list \<times> generator \<times> Ollama \<times> world" where
  "nexts 0 E self w g = ([], g, self, w)"
| "nexts (Suc n) E self w g =
     (case gen_next E self w g of
        ((s, g1), self1, w1) \<Rightarrow>
          (case nexts n E self1 w1 g1 of
             (ss, g2, self2, w2) \<Rightarrow> (s # ss, g2, self2, w2)))"

section \<open>Concrete environments\<close>

text \<open>
  Small worlds on which the adapters are run: a transport that answers each vendor's
  client in that vendor's reply shape, and one that refuses every request.
\<close>

definition pong :: "request \<Rightarrow> pyval" where
  "pong rq =
     (case req_handle rq of
        GenerativeModel n m \<Rightarrow> PObj [(''text'', PStr ''pong'')]
      | OllamaClient n t u \<Rightarrow> PDict [(''message'', PDict [(''content'', PStr ''pong'')])]
      | _ \<Rightarrow> PObj [(''choices'', PList [PObj [(''message'', PObj [(''content'', PStr ''pong'')])]])])"

definition hello_chunks :: "pyval list" where
  "hello_chunks =
     [PDict [(''message'', PDict [(''content'', PStr ''Hel'')])],
      PDict [(''message'', PDict [(''content'', PStr ''lo'')])]]"

definition answering :: env where
  "answering =
     \<lparr>get_api_key = (\<lambda>name. None),
      OLLAMA_HOST_URL = None,
      transport = (\<lambda>earlier rq. Inr (pong rq)),
      stream_transport = (\<lambda>earlier rq. Inr hello_chunks),
      model_validate = (\<lambda>schema v. Inr v),
      import_ollama = None\<rparr>"

definition refused :: exn where
  "refused = Exn ''APIConnectionError'' ''Connection error.'' None"

definition refusing :: env where
  "refusing =
     \<lparr>get_api_key = (\<lambda>name. None),
      OLLAMA_HOST_URL = None,
      transport = (\<lambda>earlier rq. Inl refused),
      stream_transport = (\<lambda>earlier rq. Inl refused),
      model_validate = (\<lambda>schema v. Inr v),
      import_ollama = None\<rparr>"

text \<open>A transport that answers the first request it receives and refuses the later ones.\<close>

definition answering_once :: env where
  "answering_once =
     \<lparr>get_api_key = (\<lambda>name. None),
      OLLAMA_HOST_URL = None,
      transport = (\<lambda>earlier rq. if earlier = [] then Inr (pong rq) else Inl refused),
      stream_transport = (\<lambda>earlier rq. Inl refused),
      model_validate = (\<lambda>schema v. Inr v),
      import_ollama = None\<rparr>"

text \<open>
  A transport that gives the same reply to every request, and a Groq reply whose
  message has a null content.
\<close>

definition answering_with :: "pyval \<Rightarrow> env" where
  "answering_with reply =
     \<lparr>get_api_key = (\<lambda>name. None),
      OLLAMA_HOST_URL = None,
      transport = (\<lambda>earlier rq. Inr reply),
      stream_transport = (\<lambda>earlier rq. Inr []),
      model_validate = (\<lambda>schema v. Inr v),
      import_ollama = None\<rparr>"

definition null_content :: pyval where
  "null_content = PObj [(''choices'', PList [PObj [(''message'', PObj [(''content'', PNone)])]])]"

definition fresh :: world where
  "fresh = \<lparr>built = [], sent = []\<rparr>"

definition said :: "string \<Rightarrow> string \<Rightarrow> Message" where
  "said r t = \<lparr>role = r, msg_text = PStr t, raw = PNone, llm_model = [], llm_provider = []\<rparr>"

definition one_turn :: Conversation where
  "one_turn = \<lparr>messages = [said ''user'' ''ping''], conv_llm_model = None\<rparr>"

definition two_turns :: Conversation where
  "two_turns =
     \<lparr>messages = [said ''system'' ''be brief'', said ''user'' ''ping''], conv_llm_model = None\<rparr>"

definition no_turns :: Conversation where
  "no_turns = \<lparr>messages = [], conv_llm_model = None\<rparr>"

definition pro_turn :: Conversation where
  "pro_turn = \<lparr>messages = [said ''user'' ''ping''], conv_llm_model = Some ''models/gemini-1.5-pro''\<rparr>"

section \<open>Unfolding rules\<close>

text \<open>The definitions, grouped for running the model on concrete inputs.\<close>

lemmas py_defs = bind_exn_def py_or_def opt_or_def opt_or_str_def dict_union_def dict_pop_def
  clash_def bound_twice_def multiple_values_def new_handle_def call_def call_stream_def
  user_messages_def chat_messages_def is_Exception_def reraise_def first_choice_content_def
  llm_model_arg_def chunk_content_def DEFAULT_KWARGS_def DEFAULT_TIMEOUT_def

lemmas groq_defs = GROQ_PROVIDER_NAME_def GROQ_DEFAULT_MODEL_def Groq_init_def Groq_client_def
  Groq_structured_client_def Groq_send_conversation_def Groq_structured_response_def
  Groq_generate_text_def

lemmas gemini_defs = GEMINI_PROVIDER_NAME_def GEMINI_DEFAULT_MODEL_def Gemini_init_def
  Gemini_client_def Gemini_structured_client_def Gemini_send_conversation_def
  Gemini_structured_response_def Gemini_generate_text_def

lemmas ollama_defs = OLLAMA_PROVIDER_NAME_def OLLAMA_DEFAULT_MODEL_def Ollama_init_def
  Ollama_client_def Ollama_structured_client_def Ollama_send_conversation_def
  Ollama_structured_response_def Ollama_generate_text_def Ollama_generate_stream_text_def

lemmas world_defs = pong_def hello_chunks_def answering_def refused_def refusing_def
  answering_once_def answering_with_def null_content_def fresh_def said_def one_turn_def
  two_turns_def no_turns_def pro_turn_def

section \<open>What \<^verbatim>\<open>send_conversation\<close> returns\<close>

text \<open>
  C1. For a non-empty conversation, a Message returned by \<^verbatim>\<open>send_conversation\<close> of the
  Gemini, Groq or Ollama adapter has role \<^verbatim>\<open>"assistant"\<close> and carries that adapter's
  provider name (\<^verbatim>\<open>"gemini"\<close>, \<^verbatim>\<open>"groq"\<close>, \<^verbatim>\<open>"ollama"\<close>), whatever the environment,
  the adapter's state, the world and the extra keyword arguments are.
\<close>

theorem send_conversation_role_provider:
  assumes "messages C \<noteq> []"
  shows "(fst (Gemini_send_conversation E g w C) = Inr m1 \<longrightarrow>
            role m1 = ''assistant'' \<and> llm_provider m1 = ''gemini'')
       \<and> (fst (Groq_send_conversation E q w C) = Inr m2 \<longrightarrow>
            role m2 = ''assistant'' \<and> llm_provider m2 = ''groq'')
       \<and> (fst (Ollama_send_conversation E l w C kw) = Inr m3 \<longrightarrow>
            role m3 = ''assistant'' \<and> llm_provider m3 = ''ollama'')"
proof (intro conjI impI)
  assume "fst (Gemini_send_conversation E g w C) = Inr m1"
  then show "role m1 = ''assistant''" "llm_provider m1 = ''gemini''"
    by (auto simp: Gemini_send_conversation_def bind_exn_def GEMINI_PROVIDER_NAME_def
             split: prod.splits sum.splits list.splits)
next
  assume "fst (Groq_send_conversation E q w C) = Inr m2"
  then show "role m2 = ''assistant''" "llm_provider m2 = ''groq''"
    by (auto simp: Groq_send_conversation_def bind_exn_def GROQ_PROVIDER_NAME_def
             split: prod.splits sum.splits)
next
  assume "fst (Ollama_send_conversation E l w C kw) = Inr m3"
  then show "role m3 = ''assistant''" "llm_provider m3 = ''ollama''"
    by (auto simp: Ollama_send_conversation_def bind_exn_def OLLAMA_PROVIDER_NAME_def
             split: prod.splits sum.splits if_splits)
qed

text \<open>
  The three adapters do return a Message on a two-message conversation when the
  transport answers.
\<close>

theorem send_conversation_role_provider_witness:
  "messages two_turns \<noteq> []
   \<and> (\<exists>m1 m2 m3.
        fst (Gemini_send_conversation answering (Gemini_init answering (Some ''k'')) fresh two_turns) = Inr m1
      \<and> role m1 = ''assistant'' \<and> llm_provider m1 = ''gemini''
      \<and> fst (Groq_send_conversation answering (Groq_init answering (Some ''k'')) fresh two_turns) = Inr m2
      \<and> role m2 = ''assistant'' \<and> llm_provider m2 = ''groq''
      \<and> fst (Ollama_send_conversation answering (Ollama_init answering (Some ''http://h'')) fresh two_turns []) = Inr m3
      \<and> role m3 = ''assistant'' \<and> llm_provider m3 = ''ollama'')"
proof -
  have ne: "messages two_turns \<noteq> []"
    by (simp add: two_turns_def)
  obtain m1 where g:
    "fst (Gemini_send_conversation answering (Gemini_init answering (Some ''k'')) fresh two_turns) = Inr m1"
    by (simp add: py_defs gemini_defs world_defs)
  obtain m2 where q:
    "fst (Groq_send_conversation answering (Groq_init answering (Some ''k'')) fresh two_turns) = Inr m2"
    by (simp add: py_defs groq_defs world_defs)
  obtain m3 where l:
    "fst (Ollama_send_conversation answering (Ollama_init answering (Some ''http://h'')) fresh two_turns []) = Inr m3"
    by (simp add: py_defs ollama_defs world_defs)
  from send_conversation_role_provider [OF ne, of answering "Gemini_init answering (Some ''k'')"
      fresh m1 "Groq_init answering (Some ''k'')" m2 "Ollama_init answering (Some ''http://h'')" "[]" m3]
    ne g q l
  show ?thesis by blast
qed

section \<open>Keyword arguments and the context replay\<close>

lemma dict_union_default [simp]: "dict_union DEFAULT_KWARGS kw = kw"
  by (simp add: dict_union_def DEFAULT_KWARGS_def)

lemma no_clash: "set (map fst extra) \<inter> set (map fst named) = {} \<Longrightarrow> \<not> clash named extra"
  by (auto simp: clash_def list_ex_iff)

lemma keys_dict_pop: "set (map fst (dict_pop kw k)) \<subseteq> set (map fst kw)"
  by (auto simp: dict_pop_def)

lemma no_clash_pop:
  assumes "set (map fst kw) \<inter> set (map fst named) = {}"
  shows "\<not> clash named (dict_pop kw k)"
proof (rule no_clash)
  show "set (map fst (dict_pop kw k)) \<inter> set (map fst named) = {}"
    using assms keys_dict_pop [of kw k] by blast
qed

lemma replay_answered:
  assumes "\<forall>earlier rq. \<exists>r. transport E earlier rq = Inr r"
  shows "replay E chat msgs w =
           (Inr (), w\<lparr>sent := sent w @ map (\<lambda>m. Request chat ''start_chat.send_message'' [msg_text m] []) msgs\<rparr>)"
proof (induction msgs arbitrary: w)
  case Nil
  show ?case by simp
next
  case (Cons m msgs)
  obtain r where "transport E (sent w) (Request chat ''start_chat.send_message'' [msg_text m] []) = Inr r"
    using assms by blast
  then show ?case
    by (simp add: call_def Cons.IH)
qed


lemma Ollama_client_available:
  assumes "truthy_opt (host_url l)" and "import_ollama E = None"
  shows "\<exists>c l1 w1. Ollama_client E l w = (Inr c, l1, w1) \<and> sent w1 = sent w"
  using assms
  by (cases "ollama_client_slot l"; cases "host_url l")
     (simp_all add: Ollama_client_def new_handle_def)

section \<open>Transport failures\<close>




section \<open>Empty conversations\<close>

text \<open>
  C3, as the specification states it: an empty conversation raises an input-validation
  error before any transport call, so that the transport is called zero times. The Groq
  adapter, given the empty conversation, calls the transport once, with an empty message
  list, and returns what the transport answers.
\<close>

theorem empty_conversation_counterexample:
  "messages no_turns = []
   \<and> sent fresh = []
   \<and> sent (snd (Groq_send_conversation answering (Groq_init answering (Some ''k'')) fresh no_turns)) =
       [Request (GroqClient 0 ''k'') ''chat.completions.create'' []
          [(''model'', PStr ''llama3-8b-8192''), (''messages'', PList [])]]
   \<and> \<not> isl (fst (Groq_send_conversation answering (Groq_init answering (Some ''k'')) fresh no_turns))"
  by (simp add: Groq_send_conversation_def Groq_client_def Groq_init_def opt_or_def opt_or_str_def
        call_def new_handle_def answering_def fresh_def no_turns_def chat_messages_def pong_def
        GROQ_DEFAULT_MODEL_def GROQ_PROVIDER_NAME_def first_choice_content_def bind_exn_def)

text \<open>
  C3, amended. No adapter validates the conversation. On an empty conversation Gemini
  sends nothing and raises: with a credential, the IndexError of \<^verbatim>\<open>messages[-1]\<close>
  re-raised as a RuntimeError. Groq and Ollama, with a credential, send exactly one
  request, whose message list is empty.
\<close>

theorem empty_conversation_requests:
  assumes "messages C = []"
  shows "isl (fst (Gemini_send_conversation E g w C))
       \<and> sent (snd (snd (Gemini_send_conversation E g w C))) = sent w
       \<and> (truthy_opt (gemini_api_key g) \<longrightarrow>
            fst (Gemini_send_conversation E g w C) =
              Inl (Exn ''RuntimeError''
                     ''Failed to send conversation to Gemini API: list index out of range''
                     (Some (Exn ''IndexError'' ''list index out of range'' None))))
       \<and> (truthy_opt (groq_api_key q) \<longrightarrow>
            (\<exists>c. sent (snd (Groq_send_conversation E q w C)) =
               sent w @ [Request c ''chat.completions.create'' []
                 [(''model'', PStr (opt_or_str (conv_llm_model C) ''llama3-8b-8192'')),
                  (''messages'', PList [])]]))
       \<and> (truthy_opt (host_url l) \<and> import_ollama E = None
            \<and> set (map fst kw) \<inter> {''model'', ''messages''} = {} \<longrightarrow>
            (\<exists>c. sent (snd (snd (Ollama_send_conversation E l w C kw))) =
               sent w @ [Request c ''chat'' []
                 ([(''model'', PStr (opt_or_str (conv_llm_model C) ''llama3.2'')),
                   (''messages'', PList [])] @ kw)]))"
proof (intro conjI impI)
  show "isl (fst (Gemini_send_conversation E g w C))"
    using assms
    by (simp add: Gemini_send_conversation_def Gemini_client_def new_handle_def
          split: option.split)
  show "sent (snd (snd (Gemini_send_conversation E g w C))) = sent w"
    using assms
    by (simp add: Gemini_send_conversation_def Gemini_client_def new_handle_def
          split: option.split)
next
  assume "truthy_opt (gemini_api_key g)"
  then show "fst (Gemini_send_conversation E g w C) =
      Inl (Exn ''RuntimeError''
             ''Failed to send conversation to Gemini API: list index out of range''
             (Some (Exn ''IndexError'' ''list index out of range'' None)))"
    using assms
    by (simp add: Gemini_send_conversation_def Gemini_client_def new_handle_def reraise_def
          is_Exception_def split: option.split)
next
  assume "truthy_opt (groq_api_key q)"
  then obtain k where k: "groq_api_key q = Some k" "k \<noteq> []"
    by (cases "groq_api_key q") auto
  show "\<exists>c. sent (snd (Groq_send_conversation E q w C)) =
      sent w @ [Request c ''chat.completions.create'' []
        [(''model'', PStr (opt_or_str (conv_llm_model C) ''llama3-8b-8192'')),
         (''messages'', PList [])]]"
    using assms k
    by (simp add: Groq_send_conversation_def Groq_client_def call_def new_handle_def
          chat_messages_def GROQ_DEFAULT_MODEL_def split: sum.split)
next
  assume a: "truthy_opt (host_url l) \<and> import_ollama E = None
       \<and> set (map fst kw) \<inter> {''model'', ''messages''} = {}"
  then obtain u where u: "host_url l = Some u" "u \<noteq> []"
    by (cases "host_url l") auto
  have nc: "\<not> clash [(''model'', PStr (opt_or_str (conv_llm_model C) OLLAMA_DEFAULT_MODEL)),
                     (''messages'', chat_messages C)] kw"
    using a by (intro no_clash) auto
  show "\<exists>c. sent (snd (snd (Ollama_send_conversation E l w C kw))) =
      sent w @ [Request c ''chat'' []
        ([(''model'', PStr (opt_or_str (conv_llm_model C) ''llama3.2'')),
          (''messages'', PList [])] @ kw)]"
    using assms a u nc
    by (simp add: Ollama_send_conversation_def Ollama_client_def call_def new_handle_def
          chat_messages_def OLLAMA_DEFAULT_MODEL_def split: sum.split option.split)
qed

theorem empty_conversation_requests_witness:
  "messages no_turns = []
   \<and> truthy_opt (gemini_api_key (Gemini_init answering (Some ''k'')))
   \<and> truthy_opt (groq_api_key (Groq_init answering (Some ''k'')))
   \<and> truthy_opt (host_url (Ollama_init answering (Some ''http://h'')))
   \<and> import_ollama answering = None
   \<and> set (map fst ([] :: kwargs)) \<inter> {''model'', ''messages''} = {}
   \<and> isl (fst (Gemini_send_conversation answering (Gemini_init answering (Some ''k'')) fresh no_turns))
   \<and> sent (snd (snd (Gemini_send_conversation answering (Gemini_init answering (Some ''k'')) fresh no_turns)))
        = sent fresh
   \<and> (\<exists>c. sent (snd (Groq_send_conversation answering (Groq_init answering (Some ''k'')) fresh no_turns)) =
          sent fresh @ [Request c ''chat.completions.create'' []
            [(''model'', PStr (opt_or_str (conv_llm_model no_turns) ''llama3-8b-8192'')),
             (''messages'', PList [])]])
   \<and> (\<exists>c. sent (snd (snd (Ollama_send_conversation answering (Ollama_init answering (Some ''http://h''))
                 fresh no_turns []))) =
          sent fresh @ [Request c ''chat'' []
            ([(''model'', PStr (opt_or_str (conv_llm_model no_turns) ''llama3.2'')),
              (''messages'', PList [])] @ [])])"
proof -
  have h0: "messages no_turns = []"
    by (simp add: no_turns_def)
  have h1: "truthy_opt (gemini_api_key (Gemini_init answering (Some ''k'')))"
    by (simp add: Gemini_init_def opt_or_def)
  have h2: "truthy_opt (groq_api_key (Groq_init answering (Some ''k'')))"
    by (simp add: Groq_init_def opt_or_def)
  have h3: "truthy_opt (host_url (Ollama_init answering (Some ''http://h'')))"
    by (simp add: Ollama_init_def opt_or_def)
  have h4: "import_ollama answering = None"
    by (simp add: answering_def)
  have h5: "set (map fst ([] :: kwargs)) \<inter> {''model'', ''messages''} = {}"
    by simp
  from empty_conversation_requests [OF h0, of answering "Gemini_init answering (Some ''k'')" fresh
      "Groq_init answering (Some ''k'')" "Ollama_init answering (Some ''http://h'')" "[]"]
    h0 h1 h2 h3 h4 h5
  show ?thesis by blast
qed

section \<open>The requests of \<^verbatim>\<open>send_conversation\<close>\<close>

text \<open>
  C4, as the specification states it: every adapter replays all messages but the last
  as sends of their own and then sends the last one. The Groq adapter, given two
  messages, sends one request, which carries both.
\<close>

theorem context_replay_counterexample:
  "length (messages two_turns) = 2
   \<and> sent (snd (Groq_send_conversation answering (Groq_init answering (Some ''k'')) fresh two_turns)) =
       [Request (GroqClient 0 ''k'') ''chat.completions.create'' []
          [(''model'', PStr ''llama3-8b-8192''),
           (''messages'', PList [PDict [(''role'', PStr ''system''), (''content'', PStr ''be brief'')],
                                 PDict [(''role'', PStr ''user''), (''content'', PStr ''ping'')]])]]"
  by (simp add: Groq_send_conversation_def Groq_client_def Groq_init_def opt_or_def opt_or_str_def
        call_def new_handle_def answering_def fresh_def two_turns_def said_def chat_messages_def
        GROQ_DEFAULT_MODEL_def)

text \<open>
  C4, amended. For a non-empty conversation: Gemini, when the transport answers,
  sends each message but the last to the chat session, in order, and then the last one;
  Groq and Ollama send exactly one request, carrying every message of the conversation
  in order as role and content pairs. Every adapter captures the reply to its last
  request: a returned Message has that reply, unmodified, as \<^verbatim>\<open>raw\<close>, and its text is
  read from it (\<^verbatim>\<open>.text\<close> for Gemini, \<^verbatim>\<open>.choices[0].message.content or ""\<close> for Groq,
  \<^verbatim>\<open>.get("message").get("content")\<close> for Ollama); and a reply from which the text can be
  read is returned in a Message.
\<close>

theorem conversation_requests:
  assumes "messages C \<noteq> []"
  shows "(truthy_opt (gemini_api_key g) \<and> (\<forall>earlier rq. \<exists>r. transport E earlier rq = Inr r) \<longrightarrow>
            (\<exists>chat.
               sent (snd (snd (Gemini_send_conversation E g w C))) =
                 sent w
                 @ map (\<lambda>m. Request chat ''start_chat.send_message'' [msg_text m] [])
                     (butlast (messages C))
                 @ [Request chat ''start_chat.send_message'' [msg_text (last (messages C))] []]
             \<and> (\<forall>m. fst (Gemini_send_conversation E g w C) = Inr m \<longrightarrow>
                    transport E
                      (sent w
                       @ map (\<lambda>m. Request chat ''start_chat.send_message'' [msg_text m] [])
                           (butlast (messages C)))
                      (Request chat ''start_chat.send_message'' [msg_text (last (messages C))] []) =
                      Inr (raw m)
                  \<and> py_getattr (raw m) ''text'' = Inr (msg_text m))
             \<and> (\<forall>r t. transport E
                      (sent w
                       @ map (\<lambda>m. Request chat ''start_chat.send_message'' [msg_text m] [])
                           (butlast (messages C)))
                      (Request chat ''start_chat.send_message'' [msg_text (last (messages C))] []) =
                      Inr r
                    \<and> py_getattr r ''text'' = Inr t \<longrightarrow>
                    (\<exists>m. fst (Gemini_send_conversation E g w C) = Inr m
                         \<and> raw m = r \<and> msg_text m = t))))
       \<and> (truthy_opt (groq_api_key q) \<longrightarrow>
            (\<exists>c.
               sent (snd (Groq_send_conversation E q w C)) =
                 sent w @ [Request c ''chat.completions.create'' []
                   [(''model'', PStr (opt_or_str (conv_llm_model C) ''llama3-8b-8192'')),
                    (''messages'',
                     PList (map (\<lambda>msg. PDict [(''role'', PStr (role msg)), (''content'', msg_text msg)])
                              (messages C)))]]
             \<and> (\<forall>m. fst (Groq_send_conversation E q w C) = Inr m \<longrightarrow>
                    transport E (sent w) (Request c ''chat.completions.create'' []
                      [(''model'', PStr (opt_or_str (conv_llm_model C) ''llama3-8b-8192'')),
                       (''messages'',
                        PList (map (\<lambda>msg. PDict [(''role'', PStr (role msg)), (''content'', msg_text msg)])
                                 (messages C)))]) = Inr (raw m)
                  \<and> (\<exists>content. first_choice_content (raw m) = Inr content
                         \<and> msg_text m = py_or content (PStr [])))
             \<and> (\<forall>r content. transport E (sent w) (Request c ''chat.completions.create'' []
                      [(''model'', PStr (opt_or_str (conv_llm_model C) ''llama3-8b-8192'')),
                       (''messages'',
                        PList (map (\<lambda>msg. PDict [(''role'', PStr (role msg)), (''content'', msg_text msg)])
                                 (messages C)))]) = Inr r
                    \<and> first_choice_content r = Inr content \<longrightarrow>
                    (\<exists>m. fst (Groq_send_conversation E q w C) = Inr m
                         \<and> raw m = r \<and> msg_text m = py_or content (PStr [])))))
       \<and> (truthy_opt (host_url l) \<and> import_ollama E = None
            \<and> set (map fst kw) \<inter> {''model'', ''messages''} = {} \<longrightarrow>
            (\<exists>c.
               sent (snd (snd (Ollama_send_conversation E l w C kw))) =
                 sent w @ [Request c ''chat'' []
                   ([(''model'', PStr (opt_or_str (conv_llm_model C) ''llama3.2'')),
                     (''messages'',
                      PList (map (\<lambda>msg. PDict [(''role'', PStr (role msg)), (''content'', msg_text msg)])
                               (messages C)))] @ kw)]
             \<and> (\<forall>m. fst (Ollama_send_conversation E l w C kw) = Inr m \<longrightarrow>
                    transport E (sent w) (Request c ''chat'' []
                      ([(''model'', PStr (opt_or_str (conv_llm_model C) ''llama3.2'')),
                        (''messages'',
                         PList (map (\<lambda>msg. PDict [(''role'', PStr (role msg)), (''content'', msg_text msg)])
                                  (messages C)))] @ kw)) = Inr (raw m)
                  \<and> (\<exists>am. py_get (raw m) ''message'' PNone = Inr am
                         \<and> py_get am ''content'' PNone = Inr (msg_text m)))
             \<and> (\<forall>r am t. transport E (sent w) (Request c ''chat'' []
                      ([(''model'', PStr (opt_or_str (conv_llm_model C) ''llama3.2'')),
                        (''messages'',
                         PList (map (\<lambda>msg. PDict [(''role'', PStr (role msg)), (''content'', msg_text msg)])
                                  (messages C)))] @ kw)) = Inr r
                    \<and> py_get r ''message'' PNone = Inr am \<and> py_get am ''content'' PNone = Inr t \<longrightarrow>
                    (\<exists>m. fst (Ollama_send_conversation E l w C kw) = Inr m
                         \<and> raw m = r \<and> msg_text m = t))))"
proof (intro conjI impI)
  assume a: "truthy_opt (gemini_api_key g) \<and> (\<forall>earlier rq. \<exists>r. transport E earlier rq = Inr r)"
  then have ans: "\<forall>earlier rq. \<exists>r. transport E earlier rq = Inr r"
    by blast
  obtain m0 ms where ne: "messages C = m0 # ms"
    using assms by (cases "messages C") auto
  define chat where
    "chat = (case gemini_client_slot g of
               Some h \<Rightarrow> h
             | None \<Rightarrow> GenerativeModel (length (built w)) GEMINI_DEFAULT_MODEL)"
  obtain g1 w1 where cl: "Gemini_client g w = (Inr chat, g1, w1)" and same: "sent w1 = sent w"
    using a by (cases "gemini_client_slot g") (simp_all add: chat_def Gemini_client_def new_handle_def)
  define hist where
    "hist = sent w @ map (\<lambda>m. Request chat ''start_chat.send_message'' [msg_text m] [])
                       (butlast (m0 # ms))"
  define rq where "rq = Request chat ''start_chat.send_message'' [msg_text (last (m0 # ms))] []"
  have rp: "replay E chat (butlast (m0 # ms)) w1 = (Inr (), w1\<lparr>sent := hist\<rparr>)"
    by (simp only: replay_answered [OF ans] same hist_def)
  obtain r0 where r0: "transport E hist rq = Inr r0"
    using ans by blast
  have res: "Gemini_send_conversation E g w C =
      (bind_exn (py_getattr r0 ''text'') (\<lambda>t.
         Inr \<lparr>role = ''assistant'', msg_text = t, raw = r0, llm_model = model_name g1,
              llm_provider = GEMINI_PROVIDER_NAME\<rparr>), g1, w1\<lparr>sent := hist @ [rq]\<rparr>)"
    using r0
    by (simp add: Gemini_send_conversation_def cl ne rp call_def rq_def
          del: butlast.simps last.simps)
  have "sent (snd (snd (Gemini_send_conversation E g w C))) = hist @ [rq]
      \<and> (\<forall>m. fst (Gemini_send_conversation E g w C) = Inr m \<longrightarrow>
             transport E hist rq = Inr (raw m) \<and> py_getattr (raw m) ''text'' = Inr (msg_text m))
      \<and> (\<forall>r t. transport E hist rq = Inr r \<and> py_getattr r ''text'' = Inr t \<longrightarrow>
             (\<exists>m. fst (Gemini_send_conversation E g w C) = Inr m \<and> raw m = r \<and> msg_text m = t))"
    by (cases "py_getattr r0 ''text''") (auto simp: res r0 bind_exn_def)
  then show "\<exists>chat.
      sent (snd (snd (Gemini_send_conversation E g w C))) =
        sent w
        @ map (\<lambda>m. Request chat ''start_chat.send_message'' [msg_text m] []) (butlast (messages C))
        @ [Request chat ''start_chat.send_message'' [msg_text (last (messages C))] []]
      \<and> (\<forall>m. fst (Gemini_send_conversation E g w C) = Inr m \<longrightarrow>
             transport E
               (sent w
                @ map (\<lambda>m. Request chat ''start_chat.send_message'' [msg_text m] [])
                    (butlast (messages C)))
               (Request chat ''start_chat.send_message'' [msg_text (last (messages C))] []) =
               Inr (raw m)
           \<and> py_getattr (raw m) ''text'' = Inr (msg_text m))
      \<and> (\<forall>r t. transport E
               (sent w
                @ map (\<lambda>m. Request chat ''start_chat.send_message'' [msg_text m] [])
                    (butlast (messages C)))
               (Request chat ''start_chat.send_message'' [msg_text (last (messages C))] []) =
               Inr r
             \<and> py_getattr r ''text'' = Inr t \<longrightarrow>
             (\<exists>m. fst (Gemini_send_conversation E g w C) = Inr m \<and> raw m = r \<and> msg_text m = t))"
    unfolding hist_def rq_def ne [symmetric]
    by (intro exI [of _ chat]) simp
next
  assume "truthy_opt (groq_api_key q)"
  then obtain k where k: "groq_api_key q = Some k" "k \<noteq> []"
    by (cases "groq_api_key q") auto
  define rq where
    "rq = Request (GroqClient (length (built w)) k) ''chat.completions.create'' []
            [(''model'', PStr (opt_or_str (conv_llm_model C) ''llama3-8b-8192'')),
             (''messages'',
              PList (map (\<lambda>msg. PDict [(''role'', PStr (role msg)), (''content'', msg_text msg)])
                       (messages C)))]"
  have res: "Groq_send_conversation E q w C =
      (case transport E (sent w) rq of
         Inl e \<Rightarrow> (Inl e, new_handle (GroqClient (length (built w)) k) w\<lparr>sent := sent w @ [rq]\<rparr>)
       | Inr response \<Rightarrow>
           (bind_exn (first_choice_content response) (\<lambda>content.
              Inr \<lparr>role = ''assistant'', msg_text = py_or content (PStr []), raw = response,
                   llm_model = opt_or_str (conv_llm_model C) GROQ_DEFAULT_MODEL,
                   llm_provider = GROQ_PROVIDER_NAME\<rparr>),
            new_handle (GroqClient (length (built w)) k) w\<lparr>sent := sent w @ [rq]\<rparr>))"
    using k
    by (simp add: Groq_send_conversation_def Groq_client_def call_def new_handle_def rq_def
          chat_messages_def GROQ_DEFAULT_MODEL_def split: sum.split)
  have "sent (snd (Groq_send_conversation E q w C)) = sent w @ [rq]
      \<and> (\<forall>m. fst (Groq_send_conversation E q w C) = Inr m \<longrightarrow>
             transport E (sent w) rq = Inr (raw m)
           \<and> (\<exists>content. first_choice_content (raw m) = Inr content
                  \<and> msg_text m = py_or content (PStr [])))
      \<and> (\<forall>r content. transport E (sent w) rq = Inr r \<and> first_choice_content r = Inr content \<longrightarrow>
             (\<exists>m. fst (Groq_send_conversation E q w C) = Inr m
                  \<and> raw m = r \<and> msg_text m = py_or content (PStr [])))"
    by (auto simp: res bind_exn_def new_handle_def split: sum.splits)
  then show "\<exists>c.
      sent (snd (Groq_send_conversation E q w C)) =
        sent w @ [Request c ''chat.completions.create'' []
          [(''model'', PStr (opt_or_str (conv_llm_model C) ''llama3-8b-8192'')),
           (''messages'',
            PList (map (\<lambda>msg. PDict [(''role'', PStr (role msg)), (''content'', msg_text msg)])
                     (messages C)))]]
      \<and> (\<forall>m. fst (Groq_send_conversation E q w C) = Inr m \<longrightarrow>
             transport E (sent w) (Request c ''chat.completions.create'' []
               [(''model'', PStr (opt_or_str (conv_llm_model C) ''llama3-8b-8192'')),
                (''messages'',
                 PList (map (\<lambda>msg. PDict [(''role'', PStr (role msg)), (''content'', msg_text msg)])
                          (messages C)))]) = Inr (raw m)
           \<and> (\<exists>content. first_choice_content (raw m) = Inr content
                  \<and> msg_text m = py_or content (PStr [])))
      \<and> (\<forall>r content. transport E (sent w) (Request c ''chat.completions.create'' []
               [(''model'', PStr (opt_or_str (conv_llm_model C) ''llama3-8b-8192'')),
                (''messages'',
                 PList (map (\<lambda>msg. PDict [(''role'', PStr (role msg)), (''content'', msg_text msg)])
                          (messages C)))]) = Inr r
             \<and> first_choice_content r = Inr content \<longrightarrow>
             (\<exists>m. fst (Groq_send_conversation E q w C) = Inr m
                  \<and> raw m = r \<and> msg_text m = py_or content (PStr [])))"
    unfolding rq_def
    by (intro exI [of _ "GroqClient (length (built w)) k"]) simp
next
  assume a: "truthy_opt (host_url l) \<and> import_ollama E = None
       \<and> set (map fst kw) \<inter> {''model'', ''messages''} = {}"
  define c where
    "c = (case ollama_client_slot l of
            Some h \<Rightarrow> h
          | None \<Rightarrow> OllamaClient (length (built w)) DEFAULT_TIMEOUT (the (host_url l)))"
  obtain l1 w1 where cl: "Ollama_client E l w = (Inr c, l1, w1)" and same: "sent w1 = sent w"
    using a
    by (cases "ollama_client_slot l"; cases "host_url l")
       (simp_all add: c_def Ollama_client_def new_handle_def)
  define rq where
    "rq = Request c ''chat'' []
            ([(''model'', PStr (opt_or_str (conv_llm_model C) ''llama3.2'')),
              (''messages'',
               PList (map (\<lambda>msg. PDict [(''role'', PStr (role msg)), (''content'', msg_text msg)])
                        (messages C)))] @ kw)"
  have nc: "\<not> clash [(''model'', PStr (opt_or_str (conv_llm_model C) OLLAMA_DEFAULT_MODEL)),
                     (''messages'', chat_messages C)] kw"
    using a by (intro no_clash) auto
  have res: "Ollama_send_conversation E l w C kw =
      (case transport E (sent w) rq of
         Inl e \<Rightarrow> (Inl e, l1, w1\<lparr>sent := sent w @ [rq]\<rparr>)
       | Inr response \<Rightarrow>
           (bind_exn (py_get response ''message'' PNone) (\<lambda>assistant_message.
            bind_exn (py_get assistant_message ''content'' PNone) (\<lambda>content.
              Inr \<lparr>role = ''assistant'', msg_text = content, raw = response,
                   llm_model = opt_or_str (conv_llm_model C) OLLAMA_DEFAULT_MODEL,
                   llm_provider = OLLAMA_PROVIDER_NAME\<rparr>)),
            l1, w1\<lparr>sent := sent w @ [rq]\<rparr>))"
    using nc
    by (simp add: Ollama_send_conversation_def cl same call_def rq_def chat_messages_def
          OLLAMA_DEFAULT_MODEL_def split: sum.split)
  have "sent (snd (snd (Ollama_send_conversation E l w C kw))) = sent w @ [rq]
      \<and> (\<forall>m. fst (Ollama_send_conversation E l w C kw) = Inr m \<longrightarrow>
             transport E (sent w) rq = Inr (raw m)
           \<and> (\<exists>am. py_get (raw m) ''message'' PNone = Inr am
                  \<and> py_get am ''content'' PNone = Inr (msg_text m)))
      \<and> (\<forall>r am t. transport E (sent w) rq = Inr r
             \<and> py_get r ''message'' PNone = Inr am \<and> py_get am ''content'' PNone = Inr t \<longrightarrow>
             (\<exists>m. fst (Ollama_send_conversation E l w C kw) = Inr m \<and> raw m = r \<and> msg_text m = t))"
    by (auto simp: res bind_exn_def split: sum.splits)
  then show "\<exists>c.
      sent (snd (snd (Ollama_send_conversation E l w C kw))) =
        sent w @ [Request c ''chat'' []
          ([(''model'', PStr (opt_or_str (conv_llm_model C) ''llama3.2'')),
            (''messages'',
             PList (map (\<lambda>msg. PDict [(''role'', PStr (role msg)), (''content'', msg_text msg)])
                      (messages C)))] @ kw)]
      \<and> (\<forall>m. fst (Ollama_send_conversation E l w C kw) = Inr m \<longrightarrow>
             transport E (sent w) (Request c ''chat'' []
               ([(''model'', PStr (opt_or_str (conv_llm_model C) ''llama3.2'')),
                 (''messages'',
                  PList (map (\<lambda>msg. PDict [(''role'', PStr (role msg)), (''content'', msg_text msg)])
                           (messages C)))] @ kw)) = Inr (raw m)
           \<and> (\<exists>am. py_get (raw m) ''message'' PNone = Inr am
                  \<and> py_get am ''content'' PNone = Inr (msg_text m)))
      \<and> (\<forall>r am t. transport E (sent w) (Request c ''chat'' []
               ([(''model'', PStr (opt_or_str (conv_llm_model C) ''llama3.2'')),
                 (''messages'',
                  PList (map (\<lambda>msg. PDict [(''role'', PStr (role msg)), (''content'', msg_text msg)])
                           (messages C)))] @ kw)) = Inr r
             \<and> py_get r ''message'' PNone = Inr am \<and> py_get am ''content'' PNone = Inr t \<longrightarrow>
             (\<exists>m. fst (Ollama_send_conversation E l w C kw) = Inr m \<and> raw m = r \<and> msg_text m = t))"
    unfolding rq_def
    by (rule exI [of _ c])
qed

text \<open>
  On a conversation of two messages, with a transport that answers, each adapter
  returns a Message that holds the reply to its last request.
\<close>

theorem conversation_requests_witness:
  "messages two_turns \<noteq> []
   \<and> truthy_opt (gemini_api_key (Gemini_init answering (Some ''k'')))
   \<and> (\<forall>earlier rq. \<exists>r. transport answering earlier rq = Inr r)
   \<and> truthy_opt (groq_api_key (Groq_init answering (Some ''k'')))
   \<and> truthy_opt (host_url (Ollama_init answering (Some ''http://h'')))
   \<and> import_ollama answering = None
   \<and> set (map fst ([] :: kwargs)) \<inter> {''model'', ''messages''} = {}
   \<and> (\<exists>chat m.
        fst (Gemini_send_conversation answering (Gemini_init answering (Some ''k'')) fresh two_turns) =
          Inr m
      \<and> sent (snd (snd (Gemini_send_conversation answering (Gemini_init answering (Some ''k''))
                   fresh two_turns))) =
          sent fresh
          @ map (\<lambda>m. Request chat ''start_chat.send_message'' [msg_text m] [])
              (butlast (messages two_turns))
          @ [Request chat ''start_chat.send_message'' [msg_text (last (messages two_turns))] []]
      \<and> transport answering
          (sent fresh
           @ map (\<lambda>m. Request chat ''start_chat.send_message'' [msg_text m] [])
               (butlast (messages two_turns)))
          (Request chat ''start_chat.send_message'' [msg_text (last (messages two_turns))] []) =
          Inr (raw m)
      \<and> py_getattr (raw m) ''text'' = Inr (msg_text m))
   \<and> (\<exists>c m.
        fst (Groq_send_conversation answering (Groq_init answering (Some ''k'')) fresh two_turns) = Inr m
      \<and> sent (snd (Groq_send_conversation answering (Groq_init answering (Some ''k'')) fresh two_turns)) =
          sent fresh @ [Request c ''chat.completions.create'' []
            [(''model'', PStr (opt_or_str (conv_llm_model two_turns) ''llama3-8b-8192'')),
             (''messages'',
              PList (map (\<lambda>msg. PDict [(''role'', PStr (role msg)), (''content'', msg_text msg)])
                       (messages two_turns)))]]
      \<and> transport answering (sent fresh) (Request c ''chat.completions.create'' []
            [(''model'', PStr (opt_or_str (conv_llm_model two_turns) ''llama3-8b-8192'')),
             (''messages'',
              PList (map (\<lambda>msg. PDict [(''role'', PStr (role msg)), (''content'', msg_text msg)])
                       (messages two_turns)))]) = Inr (raw m))
   \<and> (\<exists>c m.
        fst (Ollama_send_conversation answering (Ollama_init answering (Some ''http://h''))
               fresh two_turns []) = Inr m
      \<and> sent (snd (snd (Ollama_send_conversation answering (Ollama_init answering (Some ''http://h''))
                 fresh two_turns []))) =
          sent fresh @ [Request c ''chat'' []
            ([(''model'', PStr (opt_or_str (conv_llm_model two_turns) ''llama3.2'')),
              (''messages'',
               PList (map (\<lambda>msg. PDict [(''role'', PStr (role msg)), (''content'', msg_text msg)])
                        (messages two_turns)))] @ [])]
      \<and> transport answering (sent fresh) (Request c ''chat'' []
            ([(''model'', PStr (opt_or_str (conv_llm_model two_turns) ''llama3.2'')),
              (''messages'',
               PList (map (\<lambda>msg. PDict [(''role'', PStr (role msg)), (''content'', msg_text msg)])
                        (messages two_turns)))] @ [])) = Inr (raw m))"
proof -
  have h0: "messages two_turns \<noteq> []"
    by (simp add: two_turns_def)
  have h1: "truthy_opt (gemini_api_key (Gemini_init answering (Some ''k'')))"
    by (simp add: Gemini_init_def opt_or_def)
  have h1': "\<forall>earlier rq. \<exists>r. transport answering earlier rq = Inr r"
    by (simp add: answering_def)
  have h2: "truthy_opt (groq_api_key (Groq_init answering (Some ''k'')))"
    by (simp add: Groq_init_def opt_or_def)
  have h3: "truthy_opt (host_url (Ollama_init answering (Some ''http://h'')))"
    by (simp add: Ollama_init_def opt_or_def)
  have h4: "import_ollama answering = None"
    by (simp add: answering_def)
  have h5: "set (map fst ([] :: kwargs)) \<inter> {''model'', ''messages''} = {}"
    by simp
  obtain m1 where g:
    "fst (Gemini_send_conversation answering (Gemini_init answering (Some ''k'')) fresh two_turns) =
       Inr m1"
    by (simp add: py_defs gemini_defs world_defs)
  obtain m2 where q:
    "fst (Groq_send_conversation answering (Groq_init answering (Some ''k'')) fresh two_turns) = Inr m2"
    by (simp add: py_defs groq_defs world_defs)
  obtain m3 where l:
    "fst (Ollama_send_conversation answering (Ollama_init answering (Some ''http://h''))
            fresh two_turns []) = Inr m3"
    by (simp add: py_defs ollama_defs world_defs)
  from conversation_requests [OF h0, of "Gemini_init answering (Some ''k'')" answering fresh
      "Groq_init answering (Some ''k'')" "Ollama_init answering (Some ''http://h'')" "[]"]
    h1 h1' h2 h3 h4 h5
  have all: "(\<exists>chat.
        sent (snd (snd (Gemini_send_conversation answering (Gemini_init answering (Some ''k''))
                   fresh two_turns))) =
          sent fresh
          @ map (\<lambda>m. Request chat ''start_chat.send_message'' [msg_text m] [])
              (butlast (messages two_turns))
          @ [Request chat ''start_chat.send_message'' [msg_text (last (messages two_turns))] []]
      \<and> transport answering
          (sent fresh
           @ map (\<lambda>m. Request chat ''start_chat.send_message'' [msg_text m] [])
               (butlast (messages two_turns)))
          (Request chat ''start_chat.send_message'' [msg_text (last (messages two_turns))] []) =
          Inr (raw m1)
      \<and> py_getattr (raw m1) ''text'' = Inr (msg_text m1))
    \<and> (\<exists>c.
        sent (snd (Groq_send_conversation answering (Groq_init answering (Some ''k'')) fresh two_turns)) =
          sent fresh @ [Request c ''chat.completions.create'' []
            [(''model'', PStr (opt_or_str (conv_llm_model two_turns) ''llama3-8b-8192'')),
             (''messages'',
              PList (map (\<lambda>msg. PDict [(''role'', PStr (role msg)), (''content'', msg_text msg)])
                       (messages two_turns)))]]
      \<and> transport answering (sent fresh) (Request c ''chat.completions.create'' []
            [(''model'', PStr (opt_or_str (conv_llm_model two_turns) ''llama3-8b-8192'')),
             (''messages'',
              PList (map (\<lambda>msg. PDict [(''role'', PStr (role msg)), (''content'', msg_text msg)])
                       (messages two_turns)))]) = Inr (raw m2))
    \<and> (\<exists>c.
        sent (snd (snd (Ollama_send_conversation answering (Ollama_init answering (Some ''http://h''))
                 fresh two_turns []))) =
          sent fresh @ [Request c ''chat'' []
            ([(''model'', PStr (opt_or_str (conv_llm_model two_turns) ''llama3.2'')),
              (''messages'',
               PList (map (\<lambda>msg. PDict [(''role'', PStr (role msg)), (''content'', msg_text msg)])
                        (messages two_turns)))] @ [])]
      \<and> transport answering (sent fresh) (Request c ''chat'' []
            ([(''model'', PStr (opt_or_str (conv_llm_model two_turns) ''llama3.2'')),
              (''messages'',
               PList (map (\<lambda>msg. PDict [(''role'', PStr (role msg)), (''content'', msg_text msg)])
                        (messages two_turns)))] @ [])) = Inr (raw m3))"
    using g q l by blast
  with h0 h1 h1' h2 h3 h4 h5 g q l show ?thesis
    by blast
qed

section \<open>The model of \<^verbatim>\<open>send_conversation\<close>\<close>

lemma map_butlast_last: "xs \<noteq> [] \<Longrightarrow> map f (butlast xs) @ [f (last xs)] = map f xs"
  by (induction xs) auto

lemma replay_returned:
  "replay E chat msgs w = (Inr u, w') \<Longrightarrow>
     w' = w\<lparr>sent := sent w @ map (\<lambda>m. Request chat ''start_chat.send_message'' [msg_text m] []) msgs\<rparr>"
proof (induction msgs arbitrary: w)
  case Nil
  then show ?case by simp
next
  case (Cons m msgs)
  show ?case
  proof (cases "transport E (sent w) (Request chat ''start_chat.send_message'' [msg_text m] [])")
    case (Inl e)
    with Cons.prems show ?thesis
      by (simp add: call_def)
  next
    case (Inr r)
    with Cons.prems have
      "replay E chat msgs
         (w\<lparr>sent := sent w @ [Request chat ''start_chat.send_message'' [msg_text m] []]\<rparr>) =
       (Inr u, w')"
      by (simp add: call_def)
    from Cons.IH [OF this] show ?thesis
      by simp
  qed
qed

text \<open>
  What a returning \<^verbatim>\<open>send_conversation\<close> of the Gemini adapter has done: every message went
  to the handle that the property \<^verbatim>\<open>client\<close> gave, and the model recorded in the Message is
  the attribute \<^verbatim>\<open>model_name\<close> as that property left it.
\<close>

lemma Gemini_send_conversation_returned:
  assumes ret: "fst (Gemini_send_conversation E g w C) = Inr m"
    and ne: "messages C \<noteq> []"
  shows "\<exists>chat g1 w1. Gemini_client g w = (Inr chat, g1, w1)
           \<and> llm_model m = model_name g1
           \<and> sent (snd (snd (Gemini_send_conversation E g w C))) =
               sent w1 @ map (\<lambda>x. Request chat ''start_chat.send_message'' [msg_text x] [])
                           (messages C)"
proof -
  obtain r g1 w1 where cl: "Gemini_client g w = (r, g1, w1)"
    by (cases "Gemini_client g w") auto
  obtain chat where r: "r = Inr chat"
    using ret cl by (cases r) (simp_all add: Gemini_send_conversation_def)
  obtain u w2 where rp: "replay E chat (butlast (messages C)) w1 = (u, w2)"
    by (cases "replay E chat (butlast (messages C)) w1") auto
  have u: "u = Inr ()"
    using ret cl r rp by (cases u) (simp_all add: Gemini_send_conversation_def)
  have w2: "w2 = w1\<lparr>sent := sent w1
      @ map (\<lambda>x. Request chat ''start_chat.send_message'' [msg_text x] []) (butlast (messages C))\<rparr>"
    using replay_returned [of E chat "butlast (messages C)" w1 "()" w2] rp u by simp
  define rq where "rq = Request chat ''start_chat.send_message'' [msg_text (last (messages C))] []"
  have run: "Gemini_send_conversation E g w C =
      (case transport E (sent w2) rq of
         Inl e \<Rightarrow> (Inl (reraise ''Failed to send conversation to Gemini API: '' e), g1,
                   w2\<lparr>sent := sent w2 @ [rq]\<rparr>)
       | Inr response \<Rightarrow>
           (bind_exn (py_getattr response ''text'') (\<lambda>t.
              Inr \<lparr>role = ''assistant'', msg_text = t, raw = response, llm_model = model_name g1,
                   llm_provider = GEMINI_PROVIDER_NAME\<rparr>), g1, w2\<lparr>sent := sent w2 @ [rq]\<rparr>))"
    using rp [unfolded u] ne
    by (simp add: Gemini_send_conversation_def cl r rq_def call_def
          split: sum.split list.split)
  have model: "llm_model m = model_name g1"
    using ret by (auto simp: run bind_exn_def split: sum.splits)
  have "sent (snd (snd (Gemini_send_conversation E g w C))) = sent w2 @ [rq]"
    by (simp add: run split: sum.split)
  also have "\<dots> = sent w1
      @ (map (\<lambda>x. Request chat ''start_chat.send_message'' [msg_text x] []) (butlast (messages C))
         @ [Request chat ''start_chat.send_message'' [msg_text (last (messages C))] []])"
    by (simp add: w2 rq_def)
  also have "\<dots> = sent w1
      @ map (\<lambda>x. Request chat ''start_chat.send_message'' [msg_text x] []) (messages C)"
    using map_butlast_last [OF ne, of "\<lambda>x. Request chat ''start_chat.send_message'' [msg_text x] []"]
    by simp
  finally show ?thesis
    using cl r model by blast
qed

text \<open>
  C5. For a non-empty conversation whose \<^verbatim>\<open>llm_model\<close> is set (not \<^verbatim>\<open>None\<close>, not empty), the
  returned Message has that model and the request is issued against it; otherwise both
  have the adapter's default. Groq and Ollama do this: the first keyword of their one
  request is the model, and it is the model of the Message. Gemini never reads the
  conversation's model: on an instance created by the constructor, or whose
  \<^verbatim>\<open>model_name\<close> was not assigned from outside, the Message has the default model, and
  every request goes to the handle built for the default model.
\<close>

theorem send_conversation_model:
  assumes "messages C \<noteq> []"
  shows "(model_name g = ''models/gemini-1.5-flash-latest''
            \<and> fst (Gemini_send_conversation E g w C) = Inr m1 \<longrightarrow>
            llm_model m1 = ''models/gemini-1.5-flash-latest'')
       \<and> (gemini_client_slot g = None \<and> fst (Gemini_send_conversation E g w C) = Inr m1 \<longrightarrow>
            llm_model m1 = ''models/gemini-1.5-flash-latest''
          \<and> sent (snd (snd (Gemini_send_conversation E g w C))) =
              sent w
              @ map (\<lambda>x. Request (GenerativeModel (length (built w)) ''models/gemini-1.5-flash-latest'')
                            ''start_chat.send_message'' [msg_text x] [])
                  (messages C))
       \<and> (fst (Groq_send_conversation E q w C) = Inr m2 \<longrightarrow>
            llm_model m2 = opt_or_str (conv_llm_model C) ''llama3-8b-8192''
          \<and> (\<exists>c rest. sent (snd (Groq_send_conversation E q w C)) =
                sent w @ [Request c ''chat.completions.create'' []
                            ((''model'', PStr (llm_model m2)) # rest)]))
       \<and> (fst (Ollama_send_conversation E l w C kw) = Inr m3 \<longrightarrow>
            llm_model m3 = opt_or_str (conv_llm_model C) ''llama3.2''
          \<and> (\<exists>c rest. sent (snd (snd (Ollama_send_conversation E l w C kw))) =
                sent w @ [Request c ''chat'' [] ((''model'', PStr (llm_model m3)) # rest)]))"
proof (intro conjI impI)
  assume a: "model_name g = ''models/gemini-1.5-flash-latest''
      \<and> fst (Gemini_send_conversation E g w C) = Inr m1"
  then obtain chat g1 w1 where cl: "Gemini_client g w = (Inr chat, g1, w1)"
    and model: "llm_model m1 = model_name g1"
    using Gemini_send_conversation_returned [OF _ assms, of E g w m1] by blast
  have "model_name g1 = ''models/gemini-1.5-flash-latest''"
    using cl a
    by (auto simp: Gemini_client_def GEMINI_DEFAULT_MODEL_def split: option.splits if_splits)
  with model show "llm_model m1 = ''models/gemini-1.5-flash-latest''"
    by simp
next
  assume a: "gemini_client_slot g = None \<and> fst (Gemini_send_conversation E g w C) = Inr m1"
  then obtain chat g1 w1 where cl: "Gemini_client g w = (Inr chat, g1, w1)"
    and model: "llm_model m1 = model_name g1"
    and reqs: "sent (snd (snd (Gemini_send_conversation E g w C))) =
        sent w1 @ map (\<lambda>x. Request chat ''start_chat.send_message'' [msg_text x] []) (messages C)"
    using Gemini_send_conversation_returned [OF _ assms, of E g w m1] by blast
  have built: "chat = GenerativeModel (length (built w)) ''models/gemini-1.5-flash-latest''
      \<and> model_name g1 = ''models/gemini-1.5-flash-latest'' \<and> sent w1 = sent w"
    using cl a
    by (auto simp: Gemini_client_def GEMINI_DEFAULT_MODEL_def new_handle_def split: if_splits)
  show "llm_model m1 = ''models/gemini-1.5-flash-latest''"
    and "sent (snd (snd (Gemini_send_conversation E g w C))) =
          sent w
          @ map (\<lambda>x. Request (GenerativeModel (length (built w)) ''models/gemini-1.5-flash-latest'')
                        ''start_chat.send_message'' [msg_text x] [])
              (messages C)"
    using model reqs built by simp_all
next
  assume a: "fst (Groq_send_conversation E q w C) = Inr m2"
  then show "llm_model m2 = opt_or_str (conv_llm_model C) ''llama3-8b-8192''"
    by (auto simp: Groq_send_conversation_def bind_exn_def GROQ_DEFAULT_MODEL_def
          split: prod.splits sum.splits)
  from a show "\<exists>c rest. sent (snd (Groq_send_conversation E q w C)) =
      sent w @ [Request c ''chat.completions.create'' [] ((''model'', PStr (llm_model m2)) # rest)]"
    by (auto simp: Groq_send_conversation_def Groq_client_def call_def new_handle_def bind_exn_def
          GROQ_DEFAULT_MODEL_def split: prod.splits sum.splits option.splits if_splits)
next
  assume a: "fst (Ollama_send_conversation E l w C kw) = Inr m3"
  then show "llm_model m3 = opt_or_str (conv_llm_model C) ''llama3.2''"
    by (auto simp: Ollama_send_conversation_def bind_exn_def OLLAMA_DEFAULT_MODEL_def
          split: prod.splits sum.splits if_splits)
  from a show "\<exists>c rest. sent (snd (snd (Ollama_send_conversation E l w C kw))) =
      sent w @ [Request c ''chat'' [] ((''model'', PStr (llm_model m3)) # rest)]"
    by (auto simp: Ollama_send_conversation_def Ollama_client_def call_def new_handle_def
          bind_exn_def OLLAMA_DEFAULT_MODEL_def
          split: prod.splits sum.splits option.splits if_splits)
qed

text \<open>
  The conversation \<open>pro_turn\<close> asks for \<^verbatim>\<open>models/gemini-1.5-pro\<close>; Groq and Ollama pass that
  name on, Gemini answers from its default model.
\<close>

theorem send_conversation_model_witness:
  "messages pro_turn \<noteq> []
   \<and> opt_or_str (conv_llm_model pro_turn) ''llama3-8b-8192'' = ''models/gemini-1.5-pro''
   \<and> opt_or_str (conv_llm_model pro_turn) ''llama3.2'' = ''models/gemini-1.5-pro''
   \<and> gemini_client_slot (Gemini_init answering (Some ''k'')) = None
   \<and> model_name (Gemini_init answering (Some ''k'')) = ''models/gemini-1.5-flash-latest''
   \<and> (\<exists>m1 m2 m3.
        fst (Gemini_send_conversation answering (Gemini_init answering (Some ''k'')) fresh pro_turn) =
          Inr m1
      \<and> llm_model m1 = ''models/gemini-1.5-flash-latest''
      \<and> sent (snd (snd (Gemini_send_conversation answering (Gemini_init answering (Some ''k''))
                   fresh pro_turn))) =
          sent fresh
          @ map (\<lambda>x. Request (GenerativeModel (length (built fresh)) ''models/gemini-1.5-flash-latest'')
                        ''start_chat.send_message'' [msg_text x] [])
              (messages pro_turn)
      \<and> fst (Groq_send_conversation answering (Groq_init answering (Some ''k'')) fresh pro_turn) =
          Inr m2
      \<and> llm_model m2 = opt_or_str (conv_llm_model pro_turn) ''llama3-8b-8192''
      \<and> (\<exists>c rest. sent (snd (Groq_send_conversation answering (Groq_init answering (Some ''k''))
                          fresh pro_turn)) =
            sent fresh @ [Request c ''chat.completions.create'' []
                            ((''model'', PStr (llm_model m2)) # rest)])
      \<and> fst (Ollama_send_conversation answering (Ollama_init answering (Some ''http://h''))
               fresh pro_turn []) = Inr m3
      \<and> llm_model m3 = opt_or_str (conv_llm_model pro_turn) ''llama3.2''
      \<and> (\<exists>c rest. sent (snd (snd (Ollama_send_conversation answering
                          (Ollama_init answering (Some ''http://h'')) fresh pro_turn []))) =
            sent fresh @ [Request c ''chat'' [] ((''model'', PStr (llm_model m3)) # rest)]))"
proof -
  have ne: "messages pro_turn \<noteq> []"
    by (simp add: pro_turn_def)
  have r1: "opt_or_str (conv_llm_model pro_turn) ''llama3-8b-8192'' = ''models/gemini-1.5-pro''"
    by (simp add: pro_turn_def opt_or_str_def)
  have r2: "opt_or_str (conv_llm_model pro_turn) ''llama3.2'' = ''models/gemini-1.5-pro''"
    by (simp add: pro_turn_def opt_or_str_def)
  have slot: "gemini_client_slot (Gemini_init answering (Some ''k'')) = None"
    by (simp add: Gemini_init_def)
  have name: "model_name (Gemini_init answering (Some ''k'')) = ''models/gemini-1.5-flash-latest''"
    by (simp add: Gemini_init_def GEMINI_DEFAULT_MODEL_def)
  obtain m1 where g:
    "fst (Gemini_send_conversation answering (Gemini_init answering (Some ''k'')) fresh pro_turn) =
       Inr m1"
    by (simp add: py_defs gemini_defs world_defs)
  obtain m2 where q:
    "fst (Groq_send_conversation answering (Groq_init answering (Some ''k'')) fresh pro_turn) = Inr m2"
    by (simp add: py_defs groq_defs world_defs)
  obtain m3 where l:
    "fst (Ollama_send_conversation answering (Ollama_init answering (Some ''http://h''))
            fresh pro_turn []) = Inr m3"
    by (simp add: py_defs ollama_defs world_defs)
  from send_conversation_model [OF ne, of "Gemini_init answering (Some ''k'')" answering fresh m1
      "Groq_init answering (Some ''k'')" m2 "Ollama_init answering (Some ''http://h'')" "[]" m3]
    ne r1 r2 slot name g q l
  show ?thesis by blast
qed

text \<open>
  C5 on the Gemini adapter, run: the conversation asks for \<^verbatim>\<open>models/gemini-1.5-pro\<close>, the
  Message says \<^verbatim>\<open>models/gemini-1.5-flash-latest\<close>, and the one request went to the handle
  built for that default model.
\<close>

theorem gemini_conversation_model_counterexample:
  "messages pro_turn \<noteq> []
   \<and> conv_llm_model pro_turn = Some ''models/gemini-1.5-pro''
   \<and> fst (Gemini_send_conversation answering (Gemini_init answering (Some ''k'')) fresh pro_turn) =
       Inr \<lparr>role = ''assistant'', msg_text = PStr ''pong'', raw = PObj [(''text'', PStr ''pong'')],
            llm_model = ''models/gemini-1.5-flash-latest'', llm_provider = ''gemini''\<rparr>
   \<and> sent (snd (snd (Gemini_send_conversation answering (Gemini_init answering (Some ''k''))
                fresh pro_turn))) =
       [Request (GenerativeModel 0 ''models/gemini-1.5-flash-latest'') ''start_chat.send_message''
          [PStr ''ping''] []]"
  by (simp add: Gemini_send_conversation_def Gemini_client_def Gemini_init_def opt_or_def call_def
        new_handle_def bind_exn_def answering_def pong_def fresh_def pro_turn_def said_def
        GEMINI_DEFAULT_MODEL_def GEMINI_PROVIDER_NAME_def)

section \<open>The model of \<^verbatim>\<open>generate_text\<close>\<close>




section \<open>How often a client is constructed\<close>

text \<open>
  C7. The properties \<^verbatim>\<open>client\<close> and \<^verbatim>\<open>structured_client\<close> of Gemini and Ollama are cached:
  after an access that returned a handle, the next access on the same instance returns
  that very handle, constructs nothing and leaves the instance as it is. The Groq
  adapter declares both as plain properties: an access that follows a successful one
  constructs another client (\<^verbatim>\<open>structured_client\<close> constructs two more objects, the client
  and its wrapper), so the handle returned is not the one returned before.
\<close>

theorem client_construction:
  "(Gemini_client g w = (Inr h1, g1, w1) \<longrightarrow> Gemini_client g1 w1 = (Inr h1, g1, w1))
   \<and> (Gemini_structured_client g w = (Inr h2, g2, w2) \<longrightarrow>
        Gemini_structured_client g2 w2 = (Inr h2, g2, w2))
   \<and> (Ollama_client E l w = (Inr h3, l3, w3) \<longrightarrow> Ollama_client E l3 w3 = (Inr h3, l3, w3))
   \<and> (Ollama_structured_client l w = (Inr h4, l4, w4) \<longrightarrow>
        Ollama_structured_client l4 w4 = (Inr h4, l4, w4))
   \<and> (Groq_client q w = (Inr h5, w5) \<longrightarrow>
        (\<exists>h6. fst (Groq_client q w5) = Inr h6 \<and> h6 \<noteq> h5
            \<and> built (snd (Groq_client q w5)) = built w @ [h5, h6]))
   \<and> (Groq_structured_client q w = (Inr h7, w7) \<longrightarrow>
        (\<exists>c7 c8 h8. fst (Groq_structured_client q w7) = Inr h8 \<and> h8 \<noteq> h7
            \<and> built (snd (Groq_structured_client q w7)) = built w @ [c7, h7, c8, h8]))"
proof (intro conjI impI)
  assume "Gemini_client g w = (Inr h1, g1, w1)"
  then show "Gemini_client g1 w1 = (Inr h1, g1, w1)"
    by (auto simp: Gemini_client_def split: option.splits if_splits)
next
  assume "Gemini_structured_client g w = (Inr h2, g2, w2)"
  then show "Gemini_structured_client g2 w2 = (Inr h2, g2, w2)"
    by (auto simp: Gemini_structured_client_def split: option.splits prod.splits sum.splits)
next
  assume "Ollama_client E l w = (Inr h3, l3, w3)"
  then show "Ollama_client E l3 w3 = (Inr h3, l3, w3)"
    by (auto simp: Ollama_client_def split: option.splits if_splits)
next
  assume "Ollama_structured_client l w = (Inr h4, l4, w4)"
  then show "Ollama_structured_client l4 w4 = (Inr h4, l4, w4)"
    by (auto simp: Ollama_structured_client_def split: option.splits)
next
  assume "Groq_client q w = (Inr h5, w5)"
  then show "\<exists>h6. fst (Groq_client q w5) = Inr h6 \<and> h6 \<noteq> h5
      \<and> built (snd (Groq_client q w5)) = built w @ [h5, h6]"
    by (auto simp: Groq_client_def new_handle_def split: option.splits if_splits)
next
  assume "Groq_structured_client q w = (Inr h7, w7)"
  then show "\<exists>c7 c8 h8. fst (Groq_structured_client q w7) = Inr h8 \<and> h8 \<noteq> h7
      \<and> built (snd (Groq_structured_client q w7)) = built w @ [c7, h7, c8, h8]"
    by (auto simp: Groq_structured_client_def Groq_client_def new_handle_def
          split: option.splits if_splits)
qed

text \<open>Two accesses in a row on instances that hold a credential.\<close>

theorem client_construction_witness:
  "Gemini_client (Gemini_init answering (Some ''k'')) fresh =
     (Inr (GenerativeModel 0 ''models/gemini-1.5-flash-latest''),
      fst (snd (Gemini_client (Gemini_init answering (Some ''k'')) fresh)),
      snd (snd (Gemini_client (Gemini_init answering (Some ''k'')) fresh)))
   \<and> Gemini_client
       (fst (snd (Gemini_client (Gemini_init answering (Some ''k'')) fresh)))
       (snd (snd (Gemini_client (Gemini_init answering (Some ''k'')) fresh))) =
     (Inr (GenerativeModel 0 ''models/gemini-1.5-flash-latest''),
      fst (snd (Gemini_client (Gemini_init answering (Some ''k'')) fresh)),
      snd (snd (Gemini_client (Gemini_init answering (Some ''k'')) fresh)))
   \<and> Gemini_structured_client (Gemini_init answering (Some ''k'')) fresh =
     (Inr (Instructor 1 ''from_gemini'' (GenerativeModel 0 ''models/gemini-1.5-flash-latest'')),
      fst (snd (Gemini_structured_client (Gemini_init answering (Some ''k'')) fresh)),
      snd (snd (Gemini_structured_client (Gemini_init answering (Some ''k'')) fresh)))
   \<and> Gemini_structured_client
       (fst (snd (Gemini_structured_client (Gemini_init answering (Some ''k'')) fresh)))
       (snd (snd (Gemini_structured_client (Gemini_init answering (Some ''k'')) fresh))) =
     (Inr (Instructor 1 ''from_gemini'' (GenerativeModel 0 ''models/gemini-1.5-flash-latest'')),
      fst (snd (Gemini_structured_client (Gemini_init answering (Some ''k'')) fresh)),
      snd (snd (Gemini_structured_client (Gemini_init answering (Some ''k'')) fresh)))
   \<and> Ollama_client answering (Ollama_init answering (Some ''http://h'')) fresh =
     (Inr (OllamaClient 0 60 ''http://h''),
      fst (snd (Ollama_client answering (Ollama_init answering (Some ''http://h'')) fresh)),
      snd (snd (Ollama_client answering (Ollama_init answering (Some ''http://h'')) fresh)))
   \<and> Ollama_client answering
       (fst (snd (Ollama_client answering (Ollama_init answering (Some ''http://h'')) fresh)))
       (snd (snd (Ollama_client answering (Ollama_init answering (Some ''http://h'')) fresh))) =
     (Inr (OllamaClient 0 60 ''http://h''),
      fst (snd (Ollama_client answering (Ollama_init answering (Some ''http://h'')) fresh)),
      snd (snd (Ollama_client answering (Ollama_init answering (Some ''http://h'')) fresh)))
   \<and> Ollama_structured_client (Ollama_init answering (Some ''http://h'')) fresh =
     (Inr (Instructor 1 ''from_openai JSON'' (OpenAIClient 0 ''http://h/v1'' ''ollama'')),
      fst (snd (Ollama_structured_client (Ollama_init answering (Some ''http://h'')) fresh)),
      snd (snd (Ollama_structured_client (Ollama_init answering (Some ''http://h'')) fresh)))
   \<and> Ollama_structured_client
       (fst (snd (Ollama_structured_client (Ollama_init answering (Some ''http://h'')) fresh)))
       (snd (snd (Ollama_structured_client (Ollama_init answering (Some ''http://h'')) fresh))) =
     (Inr (Instructor 1 ''from_openai JSON'' (OpenAIClient 0 ''http://h/v1'' ''ollama'')),
      fst (snd (Ollama_structured_client (Ollama_init answering (Some ''http://h'')) fresh)),
      snd (snd (Ollama_structured_client (Ollama_init answering (Some ''http://h'')) fresh)))
   \<and> Groq_client (Groq_init answering (Some ''k'')) fresh =
     (Inr (GroqClient 0 ''k''), snd (Groq_client (Groq_init answering (Some ''k'')) fresh))
   \<and> (\<exists>h6. fst (Groq_client (Groq_init answering (Some ''k''))
                  (snd (Groq_client (Groq_init answering (Some ''k'')) fresh))) = Inr h6
          \<and> h6 \<noteq> GroqClient 0 ''k''
          \<and> built (snd (Groq_client (Groq_init answering (Some ''k''))
                     (snd (Groq_client (Groq_init answering (Some ''k'')) fresh)))) =
              built fresh @ [GroqClient 0 ''k'', h6])
   \<and> Groq_structured_client (Groq_init answering (Some ''k'')) fresh =
     (Inr (Instructor 1 ''from_groq'' (GroqClient 0 ''k'')), snd (Groq_structured_client (Groq_init answering (Some ''k'')) fresh))
   \<and> (\<exists>c7 c8 h8. fst (Groq_structured_client (Groq_init answering (Some ''k''))
                  (snd (Groq_structured_client (Groq_init answering (Some ''k'')) fresh))) = Inr h8
          \<and> h8 \<noteq> Instructor 1 ''from_groq'' (GroqClient 0 ''k'')
          \<and> built (snd (Groq_structured_client (Groq_init answering (Some ''k''))
                     (snd (Groq_structured_client (Groq_init answering (Some ''k'')) fresh)))) =
              built fresh @ [c7, Instructor 1 ''from_groq'' (GroqClient 0 ''k''), c8, h8])"
proof -
  have g: "Gemini_client (Gemini_init answering (Some ''k'')) fresh =
         (Inr (GenerativeModel 0 ''models/gemini-1.5-flash-latest''),
          fst (snd (Gemini_client (Gemini_init answering (Some ''k'')) fresh)),
          snd (snd (Gemini_client (Gemini_init answering (Some ''k'')) fresh)))"
    by (simp add: Gemini_client_def Gemini_init_def opt_or_def fresh_def GEMINI_DEFAULT_MODEL_def)
  have gs: "Gemini_structured_client (Gemini_init answering (Some ''k'')) fresh =
         (Inr (Instructor 1 ''from_gemini'' (GenerativeModel 0 ''models/gemini-1.5-flash-latest'')),
          fst (snd (Gemini_structured_client (Gemini_init answering (Some ''k'')) fresh)),
          snd (snd (Gemini_structured_client (Gemini_init answering (Some ''k'')) fresh)))"
    by (simp add: Gemini_structured_client_def Gemini_client_def Gemini_init_def opt_or_def fresh_def
          new_handle_def GEMINI_DEFAULT_MODEL_def)
  have l: "Ollama_client answering (Ollama_init answering (Some ''http://h'')) fresh =
         (Inr (OllamaClient 0 60 ''http://h''),
          fst (snd (Ollama_client answering (Ollama_init answering (Some ''http://h'')) fresh)),
          snd (snd (Ollama_client answering (Ollama_init answering (Some ''http://h'')) fresh)))"
    by (simp add: Ollama_client_def Ollama_init_def opt_or_def fresh_def answering_def DEFAULT_TIMEOUT_def)
  have ls: "Ollama_structured_client (Ollama_init answering (Some ''http://h'')) fresh =
         (Inr (Instructor 1 ''from_openai JSON'' (OpenAIClient 0 ''http://h/v1'' ''ollama'')),
          fst (snd (Ollama_structured_client (Ollama_init answering (Some ''http://h'')) fresh)),
          snd (snd (Ollama_structured_client (Ollama_init answering (Some ''http://h'')) fresh)))"
    by (simp add: Ollama_structured_client_def Ollama_init_def opt_or_def fresh_def new_handle_def)
  have q: "Groq_client (Groq_init answering (Some ''k'')) fresh =
         (Inr (GroqClient 0 ''k''), snd (Groq_client (Groq_init answering (Some ''k'')) fresh))"
    by (simp add: Groq_client_def Groq_init_def opt_or_def fresh_def)
  have qs: "Groq_structured_client (Groq_init answering (Some ''k'')) fresh =
         (Inr (Instructor 1 ''from_groq'' (GroqClient 0 ''k'')), snd (Groq_structured_client (Groq_init answering (Some ''k'')) fresh))"
    by (simp add: Groq_structured_client_def Groq_client_def Groq_init_def opt_or_def fresh_def new_handle_def)
  from client_construction [of
      "Gemini_init answering (Some ''k'')"
      fresh
      "GenerativeModel 0 ''models/gemini-1.5-flash-latest''"
      "fst (snd (Gemini_client (Gemini_init answering (Some ''k'')) fresh))"
      "snd (snd (Gemini_client (Gemini_init answering (Some ''k'')) fresh))"
      "Instructor 1 ''from_gemini'' (GenerativeModel 0 ''models/gemini-1.5-flash-latest'')"
      "fst (snd (Gemini_structured_client (Gemini_init answering (Some ''k'')) fresh))"
      "snd (snd (Gemini_structured_client (Gemini_init answering (Some ''k'')) fresh))"
      answering
      "Ollama_init answering (Some ''http://h'')"
      "OllamaClient 0 60 ''http://h''"
      "fst (snd (Ollama_client answering (Ollama_init answering (Some ''http://h'')) fresh))"
      "snd (snd (Ollama_client answering (Ollama_init answering (Some ''http://h'')) fresh))"
      "Instructor 1 ''from_openai JSON'' (OpenAIClient 0 ''http://h/v1'' ''ollama'')"
      "fst (snd (Ollama_structured_client (Ollama_init answering (Some ''http://h'')) fresh))"
      "snd (snd (Ollama_structured_client (Ollama_init answering (Some ''http://h'')) fresh))"
      "Groq_init answering (Some ''k'')"
      "GroqClient 0 ''k''"
      "snd (Groq_client (Groq_init answering (Some ''k'')) fresh)"
      "Instructor 1 ''from_groq'' (GroqClient 0 ''k'')"
      "snd (Groq_structured_client (Groq_init answering (Some ''k'')) fresh)"]
    g gs l ls q qs
  show ?thesis by blast
qed

text \<open>
  C7 on the Groq adapter, run: the first access to \<^verbatim>\<open>client\<close> constructs a client, the
  second access on the same instance constructs another one.
\<close>

theorem groq_client_rebuilt_counterexample:
  "Groq_client (Groq_init answering (Some ''k'')) fresh =
     (Inr (GroqClient 0 ''k''), \<lparr>built = [GroqClient 0 ''k''], sent = []\<rparr>)
   \<and> Groq_client (Groq_init answering (Some ''k'')) \<lparr>built = [GroqClient 0 ''k''], sent = []\<rparr> =
     (Inr (GroqClient 1 ''k''), \<lparr>built = [GroqClient 0 ''k'', GroqClient 1 ''k''], sent = []\<rparr>)
   \<and> GroqClient 1 ''k'' \<noteq> GroqClient 0 ''k''"
  by (simp add: Groq_client_def Groq_init_def opt_or_def new_handle_def fresh_def)

section \<open>A missing credential\<close>

text \<open>
  C8, as the specification states it: with a missing credential the constructor
  succeeds and the first access to the client raises a ConfigurationError. The
  constructor does succeed, but what the Groq adapter raises at the access is a
  ValueError; the adapters define and raise no ConfigurationError.
\<close>

theorem missing_credential_counterexample:
  "groq_api_key (Groq_init answering None) = None
   \<and> Groq_client (Groq_init answering None) fresh =
       (Inl (Exn ''ValueError'' ''Groq API key is required'' None), fresh)
   \<and> exn_class (Exn ''ValueError'' ''Groq API key is required'' None) \<noteq> ''ConfigurationError''"
  by (simp add: Groq_client_def Groq_init_def opt_or_def answering_def)

text \<open>
  C8, amended. When neither the constructor's argument nor the settings give a
  credential (each is \<^verbatim>\<open>None\<close> or empty), the constructor returns an instance with empty
  cache slots, and every access to \<^verbatim>\<open>client\<close>, the first one and each later one, raises a
  ValueError, constructs nothing and leaves the instance as it is. The same holds for
  \<^verbatim>\<open>structured_client\<close> of Gemini and Groq, which read \<^verbatim>\<open>client\<close>. The
  \<^verbatim>\<open>structured_client\<close> of Ollama does not read the host check: it returns a wrapper of an
  OpenAI client, whatever the host url is.
\<close>

theorem missing_credential:
  assumes "\<not> truthy_opt a"
    and "\<not> truthy_opt (get_api_key E ''gemini'')"
    and "\<not> truthy_opt (get_api_key E ''groq'')"
    and "\<not> truthy_opt (OLLAMA_HOST_URL E)"
  shows "gemini_client_slot (Gemini_init E a) = None
       \<and> gemini_structured_slot (Gemini_init E a) = None
       \<and> ollama_client_slot (Ollama_init E a) = None
       \<and> ollama_structured_slot (Ollama_init E a) = None
       \<and> Gemini_client (Gemini_init E a) w =
           (Inl (Exn ''ValueError'' ''Gemini API key is required'' None), Gemini_init E a, w)
       \<and> Gemini_structured_client (Gemini_init E a) w =
           (Inl (Exn ''ValueError'' ''Gemini API key is required'' None), Gemini_init E a, w)
       \<and> Groq_client (Groq_init E a) w =
           (Inl (Exn ''ValueError'' ''Groq API key is required'' None), w)
       \<and> Groq_structured_client (Groq_init E a) w =
           (Inl (Exn ''ValueError'' ''Groq API key is required'' None), w)
       \<and> Ollama_client E (Ollama_init E a) w =
           (Inl (Exn ''ValueError'' ''No ollama host url provided'' None), Ollama_init E a, w)
       \<and> fst (Ollama_structured_client (Ollama_init E a) w) =
           Inr (Instructor (Suc (length (built w))) ''from_openai JSON''
                  (OpenAIClient (length (built w)) (fmt_opt (OLLAMA_HOST_URL E) @ ''/v1'')
                     ''ollama''))"
proof (intro conjI)
  show s1: "gemini_client_slot (Gemini_init E a) = None"
    by (simp add: Gemini_init_def)
  show s2: "gemini_structured_slot (Gemini_init E a) = None"
    by (simp add: Gemini_init_def)
  show s3: "ollama_client_slot (Ollama_init E a) = None"
    by (simp add: Ollama_init_def)
  show s4: "ollama_structured_slot (Ollama_init E a) = None"
    by (simp add: Ollama_init_def)
  have gk: "\<not> truthy_opt (gemini_api_key (Gemini_init E a))"
    using assms by (simp add: Gemini_init_def opt_or_def GEMINI_PROVIDER_NAME_def)
  show gc: "Gemini_client (Gemini_init E a) w =
      (Inl (Exn ''ValueError'' ''Gemini API key is required'' None), Gemini_init E a, w)"
    using gk by (simp add: Gemini_client_def s1)
  show "Gemini_structured_client (Gemini_init E a) w =
      (Inl (Exn ''ValueError'' ''Gemini API key is required'' None), Gemini_init E a, w)"
    by (simp add: Gemini_structured_client_def s2 gc)
  have qk: "\<not> truthy_opt (groq_api_key (Groq_init E a))"
    using assms by (simp add: Groq_init_def opt_or_def GROQ_PROVIDER_NAME_def)
  show qc: "Groq_client (Groq_init E a) w =
      (Inl (Exn ''ValueError'' ''Groq API key is required'' None), w)"
    using qk by (cases "groq_api_key (Groq_init E a)") (simp_all add: Groq_client_def)
  show "Groq_structured_client (Groq_init E a) w =
      (Inl (Exn ''ValueError'' ''Groq API key is required'' None), w)"
    by (simp add: Groq_structured_client_def qc)
  have url: "host_url (Ollama_init E a) = OLLAMA_HOST_URL E"
    using assms by (simp add: Ollama_init_def opt_or_def)
  show "Ollama_client E (Ollama_init E a) w =
      (Inl (Exn ''ValueError'' ''No ollama host url provided'' None), Ollama_init E a, w)"
    using assms(4) url
    by (cases "OLLAMA_HOST_URL E") (simp_all add: Ollama_client_def s3)
  show "fst (Ollama_structured_client (Ollama_init E a) w) =
      Inr (Instructor (Suc (length (built w))) ''from_openai JSON''
             (OpenAIClient (length (built w)) (fmt_opt (OLLAMA_HOST_URL E) @ ''/v1'') ''ollama''))"
    by (simp add: Ollama_structured_client_def s4 url)
qed

theorem missing_credential_witness:
  "\<not> truthy_opt None
   \<and> \<not> truthy_opt (get_api_key answering ''gemini'')
   \<and> \<not> truthy_opt (get_api_key answering ''groq'')
   \<and> \<not> truthy_opt (OLLAMA_HOST_URL answering)
   \<and> Gemini_client (Gemini_init answering None) fresh =
       (Inl (Exn ''ValueError'' ''Gemini API key is required'' None), Gemini_init answering None, fresh)
   \<and> Gemini_structured_client (Gemini_init answering None) fresh =
       (Inl (Exn ''ValueError'' ''Gemini API key is required'' None), Gemini_init answering None, fresh)
   \<and> Groq_client (Groq_init answering None) fresh =
       (Inl (Exn ''ValueError'' ''Groq API key is required'' None), fresh)
   \<and> Groq_structured_client (Groq_init answering None) fresh =
       (Inl (Exn ''ValueError'' ''Groq API key is required'' None), fresh)
   \<and> Ollama_client answering (Ollama_init answering None) fresh =
       (Inl (Exn ''ValueError'' ''No ollama host url provided'' None), Ollama_init answering None,
        fresh)
   \<and> fst (Ollama_structured_client (Ollama_init answering None) fresh) =
       Inr (Instructor (Suc (length (built fresh))) ''from_openai JSON''
              (OpenAIClient (length (built fresh)) (fmt_opt (OLLAMA_HOST_URL answering) @ ''/v1'')
                 ''ollama''))"
proof -
  have h1: "\<not> truthy_opt None"
    by simp
  have h2: "\<not> truthy_opt (get_api_key answering ''gemini'')"
    by (simp add: answering_def)
  have h3: "\<not> truthy_opt (get_api_key answering ''groq'')"
    by (simp add: answering_def)
  have h4: "\<not> truthy_opt (OLLAMA_HOST_URL answering)"
    by (simp add: answering_def)
  from missing_credential [OF h1 h2 h3 h4, of fresh] h1 h2 h3 h4
  show ?thesis by blast
qed

section \<open>The order of the streamed chunks\<close>

text \<open>
  A suspended generator that is resumed \<open>k\<close> times, with at least \<open>k\<close> chunks left, yields
  the contents of the first \<open>k\<close> of them and keeps the others; resumed once more than it
  has chunks, it yields every content and then stops. It touches neither the instance
  nor the world.
\<close>

lemma nexts_Suspended:
  "map chunk_content cs = map Inr vs \<Longrightarrow> k \<le> length cs \<Longrightarrow>
     nexts k E l w (Suspended cs) = (map Yield (take k vs), Suspended (drop k cs), l, w)"
proof (induction k arbitrary: cs vs)
  case 0
  show ?case by simp
next
  case (Suc k)
  from Suc.prems obtain c cs' where cs: "cs = c # cs'"
    by (cases cs) auto
  with Suc.prems obtain v vs' where vs: "vs = v # vs'"
    by (cases vs) auto
  from Suc.prems have c: "chunk_content c = Inr v" and rest: "map chunk_content cs' = map Inr vs'"
    and k: "k \<le> length cs'"
    by (simp_all add: cs vs)
  show ?case
    by (simp add: cs vs c Suc.IH [OF rest k])
qed

lemma nexts_Suspended_all:
  "map chunk_content cs = map Inr vs \<Longrightarrow>
     nexts (Suc (length cs)) E l w (Suspended cs) = (map Yield vs @ [StopIteration], Finished, l, w)"
proof (induction cs arbitrary: vs)
  case Nil
  then show ?case by simp
next
  case (Cons c cs)
  then obtain v vs' where vs: "vs = v # vs'"
    by (cases vs) auto
  from Cons.prems have c: "chunk_content c = Inr v" and rest: "map chunk_content cs = map Inr vs'"
    by (simp_all add: vs)
  have "nexts (Suc (Suc (length cs))) E l w (Suspended (c # cs)) =
      (case nexts (Suc (length cs)) E l w (Suspended cs) of
         (ss, g2, self2, w2) \<Rightarrow> (Yield v # ss, g2, self2, w2))"
    by (simp add: c del: nexts.simps(2)) (simp add: c)
  then show ?case
    by (simp add: vs Cons.IH [OF rest] del: nexts.simps)
qed

text \<open>
  The first \<^verbatim>\<open>next\<close> runs the body up to the loop; from there on the generator behaves as
  one suspended before the first chunk.
\<close>

lemma nexts_started:
  "gen_next E l w g = (resume cs, l1, w1) \<Longrightarrow>
     nexts (Suc k) E l w g = nexts (Suc k) E l1 w1 (Suspended cs)"
  by simp

text \<open>
  C9. A generator made by \<^verbatim>\<open>Ollama.generate_stream_text\<close>, on an instance that has its
  client, with a transport that produces the chunks \<open>chunks\<close>, each holding a content:
  driven to its end it yields the content of each chunk, one per chunk and in the
  transport's order, and then stops; after \<open>k\<close> calls of \<^verbatim>\<open>next\<close> it has yielded the
  contents of the first \<open>k\<close> chunks and holds the remaining ones, not yet read; and the
  whole run sends one request, a \<^verbatim>\<open>chat\<close> with \<^verbatim>\<open>stream=True\<close>.
\<close>

theorem stream_yields_in_order:
  assumes made: "Ollama_generate_stream_text prompt kw = Inr gen"
    and host: "truthy_opt (host_url l)"
    and imported: "import_ollama E = None"
    and reserved: "set (map fst kw) \<inter> {''messages'', ''model'', ''stream''} = {}"
    and chunks: "\<forall>earlier rq. stream_transport E earlier rq = Inr chunks"
    and contents: "map chunk_content chunks = map Inr vs"
  shows "fst (nexts (Suc (length chunks)) E l w gen) = map Yield vs @ [StopIteration]
       \<and> (\<forall>k. k \<le> length chunks \<longrightarrow> fst (nexts k E l w gen) = map Yield (take k vs))
       \<and> (\<forall>k. 0 < k \<and> k \<le> length chunks \<longrightarrow>
            fst (snd (nexts k E l w gen)) = Suspended (drop k chunks))
       \<and> (\<exists>rq. sent (snd (snd (snd (nexts (Suc (length chunks)) E l w gen)))) = sent w @ [rq]
            \<and> req_method rq = ''chat''
            \<and> map_of (req_kwargs rq) ''stream'' = Some (PBool True))"
proof -
  have nb: "\<not> bound_twice [''self'', ''prompt''] kw"
    using made by (auto simp: Ollama_generate_stream_text_def split: if_splits)
  obtain model where gen: "gen = Created prompt model (dict_pop kw ''llm_model'')"
    using made nb by (auto simp: Ollama_generate_stream_text_def split: option.splits)
  obtain c l1 w1 where cl: "Ollama_client E l w = (Inr c, l1, w1)" and same: "sent w1 = sent w"
    using Ollama_client_available [OF host imported, of w] by blast
  have nc: "\<not> clash [(''messages'', user_messages prompt),
                     (''model'', py_or model (PStr OLLAMA_DEFAULT_MODEL)),
                     (''stream'', PBool True)] (dict_pop kw ''llm_model'')"
    using reserved by (intro no_clash_pop) auto
  define rq where
    "rq = Request c ''chat'' []
            ([(''messages'', user_messages prompt),
              (''model'', py_or model (PStr OLLAMA_DEFAULT_MODEL)),
              (''stream'', PBool True)] @ dict_pop kw ''llm_model'')"
  have first: "gen_next E l w gen = (resume chunks, l1, w1\<lparr>sent := sent w @ [rq]\<rparr>)"
    using nc chunks by (simp add: gen cl same call_stream_def rq_def)
  have started: "\<And>k. nexts (Suc k) E l w gen =
      nexts (Suc k) E l1 (w1\<lparr>sent := sent w @ [rq]\<rparr>) (Suspended chunks)"
    by (rule nexts_started [OF first])
  have whole: "nexts (Suc (length chunks)) E l w gen =
      (map Yield vs @ [StopIteration], Finished, l1, w1\<lparr>sent := sent w @ [rq]\<rparr>)"
    by (simp only: started nexts_Suspended_all [OF contents])
  have part: "nexts k E l w gen = (map Yield (take k vs), Suspended (drop k chunks), l1,
      w1\<lparr>sent := sent w @ [rq]\<rparr>)" if "0 < k" "k \<le> length chunks" for k
  proof -
    from that obtain j where k: "k = Suc j"
      by (cases k) auto
    show ?thesis
      using that(2) by (simp only: k started nexts_Suspended [OF contents])
  qed
  have c1: "fst (nexts (Suc (length chunks)) E l w gen) = map Yield vs @ [StopIteration]"
    by (simp only: whole fst_conv)
  have c2: "\<forall>k. k \<le> length chunks \<longrightarrow> fst (nexts k E l w gen) = map Yield (take k vs)"
  proof (intro allI impI)
    fix k
    assume le: "k \<le> length chunks"
    show "fst (nexts k E l w gen) = map Yield (take k vs)"
    proof (cases k)
      case 0
      then show ?thesis by simp
    next
      case (Suc j)
      then have "0 < k" by simp
      from part [OF this le] show ?thesis
        by (simp only: fst_conv)
    qed
  qed
  have c3: "\<forall>k. 0 < k \<and> k \<le> length chunks \<longrightarrow>
      fst (snd (nexts k E l w gen)) = Suspended (drop k chunks)"
  proof (intro allI impI)
    fix k
    assume "0 < k \<and> k \<le> length chunks"
    then have "0 < k" "k \<le> length chunks"
      by simp_all
    from part [OF this] show "fst (snd (nexts k E l w gen)) = Suspended (drop k chunks)"
      by (simp only: fst_conv snd_conv)
  qed
  have "sent (snd (snd (snd (nexts (Suc (length chunks)) E l w gen)))) = sent w @ [rq]
      \<and> req_method rq = ''chat'' \<and> map_of (req_kwargs rq) ''stream'' = Some (PBool True)"
    by (simp add: whole rq_def del: nexts.simps)
  then have c4: "\<exists>rq. sent (snd (snd (snd (nexts (Suc (length chunks)) E l w gen)))) = sent w @ [rq]
      \<and> req_method rq = ''chat'' \<and> map_of (req_kwargs rq) ''stream'' = Some (PBool True)"
    by (rule exI [of _ rq])
  from c1 c2 c3 c4 show ?thesis
    by (intro conjI)
qed

text \<open>The two chunks of \<open>hello_chunks\<close>, in three calls of \<^verbatim>\<open>next\<close>.\<close>

theorem stream_yields_in_order_witness:
  "Ollama_generate_stream_text ''hi'' [(''llm_model'', PStr ''llama3.2'')] =
     Inr (Created ''hi'' (PStr ''llama3.2'') [])
   \<and> truthy_opt (host_url (Ollama_init answering (Some ''http://h'')))
   \<and> import_ollama answering = None
   \<and> set (map fst [(''llm_model'', PStr ''llama3.2'')]) \<inter> {''messages'', ''model'', ''stream''} = {}
   \<and> (\<forall>earlier rq. stream_transport answering earlier rq = Inr hello_chunks)
   \<and> map chunk_content hello_chunks = map Inr [PStr ''Hel'', PStr ''lo'']
   \<and> fst (nexts (Suc (length hello_chunks)) answering (Ollama_init answering (Some ''http://h''))
            fresh (Created ''hi'' (PStr ''llama3.2'') [])) =
       map Yield [PStr ''Hel'', PStr ''lo''] @ [StopIteration]
   \<and> 0 < (1 :: nat) \<and> 1 \<le> length hello_chunks
   \<and> fst (nexts 1 answering (Ollama_init answering (Some ''http://h'')) fresh
            (Created ''hi'' (PStr ''llama3.2'') [])) =
       map Yield (take 1 [PStr ''Hel'', PStr ''lo''])
   \<and> fst (snd (nexts 1 answering (Ollama_init answering (Some ''http://h'')) fresh
                 (Created ''hi'' (PStr ''llama3.2'') []))) =
       Suspended (drop 1 hello_chunks)"
proof -
  have h1: "Ollama_generate_stream_text ''hi'' [(''llm_model'', PStr ''llama3.2'')] =
      Inr (Created ''hi'' (PStr ''llama3.2'') [])"
    by (simp add: Ollama_generate_stream_text_def bound_twice_def dict_pop_def)
  have h2: "truthy_opt (host_url (Ollama_init answering (Some ''http://h'')))"
    by (simp add: Ollama_init_def opt_or_def)
  have h3: "import_ollama answering = None"
    by (simp add: answering_def)
  have h4: "set (map fst [(''llm_model'', PStr ''llama3.2'')])
      \<inter> {''messages'', ''model'', ''stream''} = {}"
    by simp
  have h5: "\<forall>earlier rq. stream_transport answering earlier rq = Inr hello_chunks"
    by (simp add: answering_def)
  have h6: "map chunk_content hello_chunks = map Inr [PStr ''Hel'', PStr ''lo'']"
    by (simp add: hello_chunks_def chunk_content_def bind_exn_def)
  have k0: "0 < (1 :: nat)"
    by simp
  have k1: "1 \<le> length hello_chunks"
    by (simp add: hello_chunks_def)
  note run = stream_yields_in_order [OF h1 h2 h3 h4 h5 h6, of fresh]
  from run have c1:
    "fst (nexts (Suc (length hello_chunks)) answering (Ollama_init answering (Some ''http://h''))
            fresh (Created ''hi'' (PStr ''llama3.2'') [])) =
       map Yield [PStr ''Hel'', PStr ''lo''] @ [StopIteration]"
    by (rule conjunct1)
  from run k1 have c2:
    "fst (nexts 1 answering (Ollama_init answering (Some ''http://h'')) fresh
            (Created ''hi'' (PStr ''llama3.2'') [])) =
       map Yield (take 1 [PStr ''Hel'', PStr ''lo''])"
    by blast
  from run k0 k1 have c3:
    "fst (snd (nexts 1 answering (Ollama_init answering (Some ''http://h'')) fresh
                 (Created ''hi'' (PStr ''llama3.2'') []))) =
       Suspended (drop 1 hello_chunks)"
    by blast
  from h1 h2 h3 h4 h5 h6 k0 k1 c1 c2 c3 show ?thesis
    by (intro conjI)
qed

section \<open>Replies with missing parts\<close>



end
